theory Spec2Isabelle
  imports Complex_Main
begin

section \<open>Python values used by the plugin\<close>

text \<open>
  A Python \<open>str\<close> is a sequence of Unicode code points, and \<open>len\<close>, slicing and
  \<open>replace\<close> all count code points. A string is therefore modelled as the list of
  its code points; \<open>str\<close> embeds an ASCII literal.
\<close>

type_synonym pystr = "nat list"

definition str :: "string \<Rightarrow> pystr" where
  "str s = map of_char s"

text \<open>
  \<open>s.upper()\<close> and \<open>s.lower()\<close> on the ASCII range: the letters \<open>a\<close> to \<open>z\<close> and
  \<open>A\<close> to \<open>Z\<close> are mapped, every other code point is left as it is. Python maps
  letters beyond ASCII as well, so the two functions agree with the source on ASCII
  strings only; the format codes of the library and of the settings are ASCII.
\<close>

definition upper_char :: "nat \<Rightarrow> nat" where
  "upper_char c = (if 97 \<le> c \<and> c \<le> 122 then c - 32 else c)"

definition lower_char :: "nat \<Rightarrow> nat" where
  "lower_char c = (if 65 \<le> c \<and> c \<le> 90 then c + 32 else c)"

definition upper :: "pystr \<Rightarrow> pystr" where
  "upper s = map upper_char s"

definition lower :: "pystr \<Rightarrow> pystr" where
  "lower s = map lower_char s"

section \<open>Task Builder: safe file names\<close>

text \<open>
  \<open>SendRawAction._safe_filename\<close>. The characters of
  \<open>invalid_chars\<close> are \<open>< > : " / \ | ? *\<close>, in the order of the source literal.
\<close>

definition unknown :: pystr where
  "unknown = str ''Unknown''"

definition invalid_chars :: pystr where
  "invalid_chars = [60, 62, 58, 34, 47, 92, 124, 63, 42]"

definition underscore :: nat where
  "underscore = 95"

text \<open>\<open>name.replace(char, "_")\<close> for a one-character \<open>char\<close>.\<close>

definition replace_char :: "nat \<Rightarrow> pystr \<Rightarrow> pystr" where
  "replace_char ch name = map (\<lambda>c. if c = ch then underscore else c) name"

text \<open>\<open>name.strip(chars)\<close>: removes leading and trailing characters that occur in \<open>chars\<close>.\<close>

definition strip :: "pystr \<Rightarrow> pystr \<Rightarrow> pystr" where
  "strip chars name =
     rev (dropWhile (\<lambda>c. c \<in> set chars) (rev (dropWhile (\<lambda>c. c \<in> set chars) name)))"

definition dot_space :: pystr where
  "dot_space = [46, 32]"

definition safe_filename :: "pystr \<Rightarrow> pystr" where
  "safe_filename name =
     (if name = [] then unknown
      else
        let name1 = fold replace_char invalid_chars name;
            name2 = strip dot_space name1;
            name3 = (if length name2 > 100 then take 100 name2 else name2)
        in if name3 = [] then unknown else name3)"

section \<open>Metadata Sanitizer\<close>

text \<open>
  The metadata record is a dynamically extended object: an attribute may be missing
  (\<open>hasattr\<close> is false), present with value \<open>None\<close>, or present with a value.
\<close>

datatype 'a attr = Absent | IsNone | Val 'a

text \<open>\<open>hasattr(obj, name)\<close>.\<close>

fun hasattr :: "'a attr \<Rightarrow> bool" where
  "hasattr Absent = False"
| "hasattr _ = True"

record metadata =
  title :: "pystr option"
  authors :: "pystr list"
  series :: "pystr option"
  series_index :: "rat option"
  extension :: "pystr attr"
  size :: "nat attr"
  md5 :: "pystr attr"
  format_metadata :: "(pystr \<times> pystr) list attr"
  cover_data :: "nat list attr"
  thumbnail :: "nat list attr"
  uuid :: "pystr attr"
  device_collections :: "pystr list attr"
  lpath :: "pystr attr"
  tags :: "pystr list attr"
  comments :: "pystr attr"
  last_modified :: "nat attr"

text \<open>
  \<open>prepare_metadata_for_device(mi, extension, file_size, file_md5=None)\<close> of
  \<open>send_raw/ui.py\<close>. The value of \<open>str(uuid4())\<close> is the argument \<open>fresh_uuid\<close>.
  The model returns the record that the source returns (the deep copy, or \<open>mi\<close> itself
  updated in place when it has no \<open>deepcopy_metadata\<close>).
\<close>

definition prepare_metadata_for_device ::
  "metadata \<Rightarrow> pystr \<Rightarrow> nat \<Rightarrow> pystr option \<Rightarrow> pystr \<Rightarrow> metadata" where
  "prepare_metadata_for_device mi ext file_size file_md5 fresh_uuid =
     (let m1 = mi\<lparr>extension := Val (lower ext), size := Val file_size\<rparr>;
          m2 = (case file_md5 of
                  None \<Rightarrow> m1
                | Some h \<Rightarrow> if h = [] then m1 else m1\<lparr>md5 := Val h\<rparr>);
          m3 = (if hasattr (format_metadata m2) then m2\<lparr>format_metadata := Val []\<rparr> else m2);
          m4 = (if hasattr (cover_data m3) then m3\<lparr>cover_data := IsNone\<rparr> else m3);
          m5 = (if hasattr (thumbnail m4) then m4\<lparr>thumbnail := IsNone\<rparr> else m4);
          m6 = (case uuid m5 of
                  Val u \<Rightarrow> if u = [] then m5\<lparr>uuid := Val fresh_uuid\<rparr> else m5
                | _ \<Rightarrow> m5\<lparr>uuid := Val fresh_uuid\<rparr>)
      in m6\<lparr>device_collections :=
              Val (case device_collections m6 of Val cs \<Rightarrow> cs | _ \<Rightarrow> [])\<rparr>)"

text \<open>The same function in the older top-level \<open>ui.py\<close>, which neither clears nor assigns.\<close>

definition prepare_metadata_for_device_legacy ::
  "metadata \<Rightarrow> pystr \<Rightarrow> nat \<Rightarrow> pystr option \<Rightarrow> metadata" where
  "prepare_metadata_for_device_legacy mi ext file_size file_md5 =
     (let m1 = mi\<lparr>extension := Val (lower ext), size := Val file_size\<rparr>;
          m2 = (case file_md5 of
                  None \<Rightarrow> m1
                | Some h \<Rightarrow> if h = [] then m1 else m1\<lparr>md5 := Val h\<rparr>)
      in m2\<lparr>device_collections :=
              Val (case device_collections m2 of Val cs \<Rightarrow> cs | _ \<Rightarrow> [])\<rparr>)"

text \<open>\<open>Metadata(title, authors)\<close>: a record with no further attribute set.\<close>

definition new_metadata :: "pystr \<Rightarrow> pystr list \<Rightarrow> metadata" where
  "new_metadata t as =
     \<lparr>title = Some t, authors = as, series = None, series_index = None,
      extension = Absent, size = Absent, md5 = Absent, format_metadata = Absent,
      cover_data = Absent, thumbnail = Absent, uuid = Absent,
      device_collections = Absent, lpath = Absent, tags = Absent, comments = Absent,
      last_modified = Absent\<rparr>"

section \<open>Python values and exceptions\<close>

text \<open>
  The values a device may hand back: \<open>None\<close>, strings, integers and tuples.
  \<open>truthy\<close> is Python's truth test on them; a tuple is true exactly when it has a
  component, whatever the components are.
\<close>

datatype pyval = PNone | PStr pystr | PInt int | PTuple "pyval list"

fun truthy :: "pyval \<Rightarrow> bool" where
  "truthy PNone = False"
| "truthy (PStr s) = (s \<noteq> [])"
| "truthy (PInt i) = (i \<noteq> 0)"
| "truthy (PTuple vs) = (vs \<noteq> [])"

text \<open>An exception: its class and the text \<open>str(e)\<close>.\<close>

datatype exn_class =
  KeyError | ValueError | IndexError | RuntimeError | AttributeError | OtherError

datatype exn = Exn exn_class pystr

fun exn_class_of :: "exn \<Rightarrow> exn_class" where
  "exn_class_of (Exn c m) = c"

fun exn_str :: "exn \<Rightarrow> pystr" where
  "exn_str (Exn c m) = m"

text \<open>\<open>str(n)\<close> for a natural number, and the text an f-string gives an optional string.\<close>

fun str_nat :: "nat \<Rightarrow> pystr" where
  "str_nat n = (if n < 10 then [48 + n] else str_nat (n div 10) @ [48 + n mod 10])"

declare str_nat.simps [simp del]

definition fstr :: "pystr option \<Rightarrow> pystr" where
  "fstr s = (case s of None \<Rightarrow> str ''None'' | Some t \<Rightarrow> t)"

text \<open>\<open>sub in s\<close> for strings.\<close>

fun startswith :: "pystr \<Rightarrow> pystr \<Rightarrow> bool" where
  "startswith s [] = True"
| "startswith [] (c # cs) = False"
| "startswith (d # ds) (c # cs) = (d = c \<and> startswith ds cs)"

fun contains :: "pystr \<Rightarrow> pystr \<Rightarrow> bool" where
  "contains [] sub = (sub = [])"
| "contains (d # ds) sub = (startswith (d # ds) sub \<or> contains ds sub)"

section \<open>Tasks, the device and its session\<close>

record task =
  book_id :: nat
  path :: pystr
  name :: pystr
  task_title :: "pystr option"
  task_metadata :: metadata
  task_size :: nat
  verify_md5 :: bool
  format :: pystr

text \<open>The field map of the \<open>SEND_BOOK\<close> request built by the remote catalog reset.\<close>

record send_book_args =
  arg_lpath :: pystr
  arg_length :: nat
  arg_metadata :: metadata
  thisBook :: nat
  totalBooks :: nat
  willStreamBooks :: bool
  willStreamBinary :: bool
  wantsSendOkToSendbook :: bool
  canSupportLpathChanges :: bool

text \<open>
  Every exchange with the device is recorded, in order, as an event. The device is an
  external collaborator: what it answers to a call is a function of the events so far and
  of the call's arguments, so it may answer the same call differently later on.
  \<open>UploadBooks files names metadata\<close> is
  \<open>upload_books(files, names, on_card=None, end_session=False, metadata=metadata)\<close>;
  \<open>CallClient op args wait\<close> is \<open>_call_client(op, args, wait_for_response=wait)\<close>;
  \<open>LockAcquire\<close> and \<open>LockRelease\<close> are entering and leaving \<open>with device.sync_lock\<close>.
\<close>

datatype event =
    UploadBooks "pystr list" "pystr list" "metadata list"
  | GetFile pystr
  | DeleteBooks "pystr list"
  | LockAcquire
  | LockRelease
  | CallClient pystr send_book_args bool
  | SendByteString "nat list"

record device =
  can_send_ok_to_sendbook :: "bool option"
  upload_books ::
    "event list \<Rightarrow> pystr list \<Rightarrow> pystr list \<Rightarrow> metadata list \<Rightarrow> exn + pyval list"
  get_file :: "event list \<Rightarrow> pystr \<Rightarrow> exn + nat list"
  delete_books :: "event list \<Rightarrow> pystr list \<Rightarrow> exn option"
  call_client ::
    "event list \<Rightarrow> pystr \<Rightarrow> send_book_args \<Rightarrow> bool
       \<Rightarrow> exn + (pystr option \<times> (pystr \<rightharpoonup> pystr) option)"
  send_byte_string :: "event list \<Rightarrow> nat list \<Rightarrow> exn option"

section \<open>Transport Client\<close>

text \<open>
  The message literals of the source, as code points.
  \<open>msg_unconfirmed\<close> is the five-character reason "transfer unconfirmed",
  \<open>msg_not_connected\<close> "device not connected", \<open>msg_done\<close> "sending finished",
  \<open>md5_prefix\<close> "computing MD5 (" and \<open>send_prefix\<close> "sending (";
  \<open>corruption_note\<close> is the three-line remediation note of \<open>_record_error\<close>.
\<close>

definition msg_unconfirmed :: pystr where
  "msg_unconfirmed = [0x4F20, 0x8F93, 0x672A, 0x786E, 0x8BA4]"

definition msg_not_connected :: pystr where
  "msg_not_connected = [0x8BBE, 0x5907, 0x672A, 0x8FDE, 0x63A5]"

definition msg_done :: pystr where
  "msg_done = [0x53D1, 0x9001, 0x5B8C, 0x6210]"

definition md5_prefix :: pystr where
  "md5_prefix = [0x6B63, 0x5728, 0x8BA1, 0x7B97, 32, 77, 68, 53, 32, 40]"

definition send_prefix :: pystr where
  "send_prefix = [0x6B63, 0x5728, 0x53D1, 0x9001, 32, 40]"

definition corruption_note :: pystr where
  "corruption_note =
     [0x68C0, 0x6D4B, 0x5230, 0x8BBE, 0x5907, 0x7AEF, 0x5143, 0x6570, 0x636E, 0x53EF, 0x80FD,
      0x5DF2, 0x635F, 0x574F, 0x3002, 10, 49, 41, 32, 0x8BF7, 0x5728, 0x63D2, 0x4EF6, 0x83DC,
      0x5355, 0x4E2D, 0x4F7F, 0x7528, 0x201C, 0x6E05, 0x9664, 32, 75, 79, 82, 101, 97, 100,
      101, 114, 32, 0x5143, 0x6570, 0x636E, 0x7F13, 0x5B58, 0x201D, 0x5220, 0x9664, 0x4E3B,
      0x673A, 0x7AEF, 0x7F13, 0x5B58, 0xFF1B, 10, 50, 41, 32, 0x5E76, 0x5728, 32, 75, 79, 82,
      101, 97, 100, 101, 114, 32, 45, 62, 32, 67, 97, 108, 105, 98, 114, 101, 32, 0x65E0,
      0x7EBF, 32, 45, 62, 32, 0x83DC, 0x5355, 32, 0x4E2D, 0x6267, 0x884C, 0x201C, 0x91CD,
      0x7F6E, 0x65E0, 0x7EBF, 0x5171, 0x4EAB, 0x201D, 0x4EE5, 0x91CD, 0x5EFA, 32, 109, 101,
      116, 97, 100, 97, 116, 97, 46, 99, 97, 108, 105, 98, 114, 101, 0x3002]"

type_synonym error_report = "pystr option \<times> pystr \<times> pystr"

text \<open>
  \<open>SmartDeviceTransport._record_error\<close>. \<open>format_exc\<close> stands for
  \<open>traceback.format_exc()\<close>, the trace text of the exception being handled.
\<close>

definition record_error ::
  "(exn \<Rightarrow> pystr) \<Rightarrow> error_report list \<Rightarrow> pystr option \<Rightarrow> exn \<Rightarrow> error_report list" where
  "record_error format_exc reports ttl exc =
     (let details = format_exc exc;
          message = exn_str exc;
          note = (if contains message ([39] @ str ''extension'' @ [39])
                     \<or> contains message (str ''KeyError'')
                  then Some corruption_note else None)
      in case note of
           None \<Rightarrow> reports @ [(ttl, message, details)]
         | Some n \<Rightarrow> reports @ [(ttl, message @ [10] @ n, details @ [10, 10] @ n)])"

text \<open>The event of sending one task: a one-element call of the device's upload.\<close>

definition upload_event :: "task \<Rightarrow> event" where
  "upload_event t = UploadBooks [path t] [name t] [task_metadata t]"

text \<open>
  \<open>SmartDeviceTransport.send_single_book\<close>: the result triple
  \<open>(ok, error, location)\<close>, the error reports and the events afterwards.
\<close>

definition send_single_book ::
  "device \<Rightarrow> (exn \<Rightarrow> pystr) \<Rightarrow> error_report list \<Rightarrow> event list \<Rightarrow> task
     \<Rightarrow> (bool \<times> pystr option \<times> pyval) \<times> error_report list \<times> event list" where
  "send_single_book dev format_exc reports tr t =
     (let tr' = tr @ [upload_event t] in
      case upload_books dev tr [path t] [name t] [task_metadata t] of
        Inr paths \<Rightarrow>
          (case paths of
             [] \<Rightarrow> ((False, Some msg_unconfirmed, PNone), reports, tr')
           | p # ps \<Rightarrow>
               if truthy p then ((True, None, p), reports, tr')
               else ((False, Some msg_unconfirmed, PNone), reports, tr'))
      | Inl e \<Rightarrow>
          ((False, Some (exn_str e), PNone),
           record_error format_exc reports (task_title t) e, tr'))"

text \<open>
  \<open>SmartDeviceTransport.send_books\<close> of the older top-level \<open>ui.py\<close>, which sends the
  whole batch in one call and accepts entry \<open>i\<close> when \<open>paths[i][1] >= 0\<close>. Only the
  classification of an answered upload is modelled; \<open>None\<close> is an entry that has no
  integer second component, for which the comparison raises.
\<close>

fun entry_accepted :: "pyval \<Rightarrow> bool option" where
  "entry_accepted (PTuple (a # PInt n # rest)) = Some (n \<ge> 0)"
| "entry_accepted _ = None"

section \<open>Batch Coordinator\<close>

text \<open>
  The worker's surroundings: \<open>calculate_md5\<close> reads the file at a path,
  \<open>format_exc\<close> renders the trace of an exception, and \<open>abort_is_set i\<close> is what
  \<open>abort.is_set()\<close> answers at the start of iteration \<open>i\<close> (the flag is set from
  another thread).
\<close>

record env =
  calculate_md5 :: "pystr \<Rightarrow> exn + pystr"
  format_exc :: "exn \<Rightarrow> pystr"
  abort_is_set :: "nat \<Rightarrow> bool"

text \<open>
  The worker's variables, the transport's error reports, and its effects: the progress
  queue, the log and the device events. A progress fraction \<open>float(i) / tot\<close> is kept
  as the exact quotient.
\<close>

record wstate =
  success_titles :: "pystr option list"
  failed_list :: "(pystr option \<times> pystr option) list"
  upload_locations :: "pyval list"
  upload_metadata :: "metadata list"
  error_reports :: "error_report list"
  notifications :: "(rat \<times> pystr) list"
  log :: "pystr list"
  trace :: "event list"

definition progress_text :: "pystr \<Rightarrow> nat \<Rightarrow> nat \<Rightarrow> pystr option \<Rightarrow> pystr" where
  "progress_text pre i tot ttl =
     pre @ str_nat (i + 1) @ str ''/'' @ str_nat tot @ str ''): '' @ fstr ttl"

text \<open>The task as it is after the optional hash step: the hash is stored in its metadata.\<close>

definition attach_md5 :: "env \<Rightarrow> task \<Rightarrow> task" where
  "attach_md5 en t =
     (if verify_md5 t then
        (case calculate_md5 en (path t) of
           Inr h \<Rightarrow> t\<lparr>task_metadata := (task_metadata t)\<lparr>md5 := Val h\<rparr>\<rparr>
         | Inl e \<Rightarrow> t)
      else t)"

definition md5_step :: "env \<Rightarrow> nat \<Rightarrow> nat \<Rightarrow> task \<Rightarrow> wstate \<Rightarrow> wstate" where
  "md5_step en tot i t st =
     (if verify_md5 t then
        (let st1 = st\<lparr>notifications := notifications st @
                      [(of_nat i / of_nat tot, progress_text md5_prefix i tot (task_title t))]\<rparr>
         in case calculate_md5 en (path t) of
              Inr h \<Rightarrow> st1
            | Inl e \<Rightarrow>
                st1\<lparr>log := log st1 @
                  [str ''MD5 calculation failed for '' @ fstr (task_title t) @ str '': ''
                     @ exn_str e]\<rparr>)
      else st)"

text \<open>The body of the loop of \<open>send_raw_books_worker\<close> after the cancellation check.\<close>

definition process_task :: "device \<Rightarrow> env \<Rightarrow> nat \<Rightarrow> nat \<Rightarrow> task \<Rightarrow> wstate \<Rightarrow> wstate" where
  "process_task dev en tot i t st =
     (let ttl = task_title t;
          st1 = st\<lparr>log := log st @ [str ''Processing: '' @ fstr ttl]\<rparr>;
          st2 = md5_step en tot i t st1;
          t' = attach_md5 en t;
          st3 = st2\<lparr>notifications := notifications st2 @
                  [(of_nat i / of_nat tot, progress_text send_prefix i tot ttl)]\<rparr>
      in case send_single_book dev (format_exc en) (error_reports st3) (trace st3) t' of
           ((is_ok, err_msg, location), reports, tr) \<Rightarrow>
             (let st4 = st3\<lparr>error_reports := reports, trace := tr\<rparr> in
              if is_ok then
                (let st5 = st4\<lparr>success_titles := success_titles st4 @ [ttl]\<rparr> in
                 if truthy location then
                   st5\<lparr>upload_locations := upload_locations st5 @ [location],
                       upload_metadata := upload_metadata st5 @ [task_metadata t']\<rparr>
                 else st5)
              else st4\<lparr>failed_list := failed_list st4 @ [(ttl, err_msg)]\<rparr>))"

fun worker_loop :: "device \<Rightarrow> env \<Rightarrow> nat \<Rightarrow> nat \<Rightarrow> task list \<Rightarrow> wstate \<Rightarrow> wstate" where
  "worker_loop dev en tot i [] st = st"
| "worker_loop dev en tot i (t # ts) st =
     (if abort_is_set en i then st
      else worker_loop dev en tot (Suc i) ts (process_task dev en tot i t st))"

definition init_wstate :: "event list \<Rightarrow> wstate" where
  "init_wstate tr =
     \<lparr>success_titles = [], failed_list = [], upload_locations = [], upload_metadata = [],
      error_reports = [], notifications = [], log = [], trace = tr\<rparr>"

text \<open>
  \<open>send_raw_books_worker(tasks, device, abort, log, notifications)\<close>; \<open>tr\<close> holds the
  device events before the call. A missing device raises.
\<close>

definition send_raw_books_worker ::
  "task list \<Rightarrow> device option \<Rightarrow> env \<Rightarrow> event list \<Rightarrow> exn + wstate" where
  "send_raw_books_worker tasks device_opt en tr =
     (case device_opt of
        None \<Rightarrow> Inl (Exn RuntimeError msg_not_connected)
      | Some dev \<Rightarrow>
          (let st = worker_loop dev en (length tasks) 0 tasks (init_wstate tr)
           in Inr (st\<lparr>notifications := notifications st @ [(1, msg_done)]\<rparr>)))"

text \<open>
  What the device answers to the send of task \<open>j\<close> of a batch that is not cancelled:
  the events before that send are \<open>tr\<close> and the uploads of the tasks before it.
\<close>

definition reply_at ::
  "device \<Rightarrow> env \<Rightarrow> event list \<Rightarrow> task list \<Rightarrow> nat \<Rightarrow> exn + pyval list" where
  "reply_at dev en tr tasks j =
     upload_books dev (tr @ map (\<lambda>t. upload_event (attach_md5 en t)) (take j tasks))
       [path (tasks ! j)] [name (tasks ! j)] [task_metadata (attach_md5 en (tasks ! j))]"

text \<open>
  The reading of an answer: it confirms the transfer when it is a list whose first entry
  is true, the location is then that entry, and the reason of a failure is the text of the
  exception, or the literal "transfer unconfirmed" when nothing was raised.
\<close>

fun confirmed :: "exn + pyval list \<Rightarrow> bool" where
  "confirmed (Inr (p # ps)) = truthy p"
| "confirmed _ = False"

fun location_of :: "exn + pyval list \<Rightarrow> pyval" where
  "location_of (Inr (p # ps)) = p"
| "location_of _ = PNone"

fun refusal :: "exn + pyval list \<Rightarrow> pystr option" where
  "refusal (Inl e) = Some (exn_str e)"
| "refusal (Inr ps) = Some msg_unconfirmed"

section \<open>Cache Recovery: remote catalog reset\<close>

text \<open>The payload \<open>b"[]"\<close> of \<open>_purge_remote_metadata_file\<close>: the two bytes of an empty JSON list.\<close>

definition payload :: "nat list" where
  "payload = [91, 93]"

text \<open>
  The metadata object the reset sends along. \<open>fresh_uuid\<close> is \<open>str(uuid4())\<close> and
  \<open>now\<close> is the value of \<open>utcnow()\<close>, or \<open>None\<close> when it cannot be had.
\<close>

definition reset_metadata :: "pystr \<Rightarrow> pystr \<Rightarrow> nat option \<Rightarrow> metadata" where
  "reset_metadata lp fresh_uuid now =
     (new_metadata (str ''Calibre Metadata Reset'') [str ''Calibre''])
       \<lparr>size := Val (length payload), uuid := Val fresh_uuid, lpath := Val lp,
        tags := Val [], comments := Val (str ''calibre-metadata-reset''),
        last_modified := (case now of Some ts \<Rightarrow> Val ts | None \<Rightarrow> IsNone)\<rparr>"

text \<open>\<open>getattr(device, "can_send_ok_to_sendbook", False)\<close>.\<close>

definition wait_for_ack :: "device \<Rightarrow> bool" where
  "wait_for_ack dev = (case can_send_ok_to_sendbook dev of None \<Rightarrow> False | Some b \<Rightarrow> b)"

definition reset_args :: "pystr \<Rightarrow> pystr \<Rightarrow> nat option \<Rightarrow> bool \<Rightarrow> send_book_args" where
  "reset_args lp fresh_uuid now wait =
     \<lparr>arg_lpath = lp, arg_length = length payload,
      arg_metadata = reset_metadata lp fresh_uuid now,
      thisBook = 0, totalBooks = 1, willStreamBooks = True, willStreamBinary = True,
      wantsSendOkToSendbook = wait, canSupportLpathChanges = True\<rparr>"

definition send_book :: pystr where
  "send_book = str ''SEND_BOOK''"

text \<open>
  What the source does with the answer \<open>(opcode, result)\<close> when it waited for one:
  the error opcode raises with the device's message, anything else yields the lpath of
  the answer, or the requested one. \<open>result.get\<close> on a missing result raises.
\<close>

definition no_get :: exn where
  "no_get = Exn AttributeError (str ''NoneType object has no attribute get'')"

definition read_ack ::
  "pystr \<Rightarrow> pystr option \<Rightarrow> (pystr \<rightharpoonup> pystr) option \<Rightarrow> exn + pystr" where
  "read_ack lp opcode result =
     (if opcode = Some (str ''ERROR'') then
        (case result of
           None \<Rightarrow> Inl no_get
         | Some r \<Rightarrow>
             Inl (Exn RuntimeError
                   (case r (str ''message'') of
                      None \<Rightarrow> str ''SEND_BOOK failed'' | Some m \<Rightarrow> m)))
      else
        (case result of
           None \<Rightarrow> Inl no_get
         | Some r \<Rightarrow> Inr (case r (str ''lpath'') of None \<Rightarrow> lp | Some l \<Rightarrow> l)))"

text \<open>
  \<open>SendRawAction._purge_remote_metadata_file(device, lpath)\<close>: the returned lpath or the
  exception raised, and the events afterwards. Leaving the \<open>with\<close> block releases the
  lock on every path.
\<close>

definition purge_remote_metadata_file ::
  "device \<Rightarrow> pystr \<Rightarrow> pystr \<Rightarrow> nat option \<Rightarrow> event list \<Rightarrow> (exn + pystr) \<times> event list" where
  "purge_remote_metadata_file dev lp fresh_uuid now tr =
     (let wait = wait_for_ack dev;
          args = reset_args lp fresh_uuid now wait;
          tr1 = tr @ [LockAcquire];
          tr2 = tr1 @ [CallClient send_book args wait]
      in case call_client dev tr1 send_book args wait of
           Inl e \<Rightarrow> (Inl e, tr2 @ [LockRelease])
         | Inr (opcode, result) \<Rightarrow>
             (case (if wait then read_ack lp opcode result else Inr lp) of
                Inl e \<Rightarrow> (Inl e, tr2 @ [LockRelease])
              | Inr lp' \<Rightarrow>
                  if payload \<noteq> [] then
                    (case send_byte_string dev tr2 payload of
                       Some e \<Rightarrow> (Inl e, tr2 @ [SendByteString payload, LockRelease])
                     | None \<Rightarrow> (Inr lp', tr2 @ [SendByteString payload, LockRelease]))
                  else (Inr lp', tr2 @ [LockRelease])))"

text \<open>
  The \<open>try\<close> block of \<open>delete_remote_metadata_file\<close>: the reset, then
  \<open>device.delete_books([cleaned_path], end_session=False)\<close>.
\<close>

definition purge_and_delete ::
  "device \<Rightarrow> pystr \<Rightarrow> pystr \<Rightarrow> nat option \<Rightarrow> event list \<Rightarrow> (exn + pystr) \<times> event list" where
  "purge_and_delete dev target fresh_uuid now tr =
     (case purge_remote_metadata_file dev target fresh_uuid now tr of
        (Inl e, tr') \<Rightarrow> (Inl e, tr')
      | (Inr cleaned, tr') \<Rightarrow>
          (case delete_books dev tr' [cleaned] of
             Some e \<Rightarrow> (Inl e, tr' @ [DeleteBooks [cleaned]])
           | None \<Rightarrow> (Inr cleaned, tr' @ [DeleteBooks [cleaned]])))"

text \<open>
  \<open>_remote_file_exists\<close> and \<open>_locate_remote_metadata_file\<close>: the first of the two
  candidate names that the device can fetch.
\<close>

definition remote_file_exists :: "device \<Rightarrow> pystr \<Rightarrow> event list \<Rightarrow> bool \<times> event list" where
  "remote_file_exists dev lp tr =
     (case get_file dev tr lp of
        Inr bytes \<Rightarrow> (True, tr @ [GetFile lp])
      | Inl e \<Rightarrow> (False, tr @ [GetFile lp]))"

fun locate_in :: "device \<Rightarrow> pystr list \<Rightarrow> event list \<Rightarrow> pystr option \<times> event list" where
  "locate_in dev [] tr = (None, tr)"
| "locate_in dev (c # cs) tr =
     (case remote_file_exists dev c tr of
        (True, tr') \<Rightarrow> (Some c, tr')
      | (False, tr') \<Rightarrow> locate_in dev cs tr')"

definition locate_remote_metadata_file ::
  "device \<Rightarrow> event list \<Rightarrow> pystr option \<times> event list" where
  "locate_remote_metadata_file dev tr =
     locate_in dev [str ''.metadata.calibre'', str ''metadata.calibre''] tr"

text \<open>
  \<open>SendRawAction.delete_remote_metadata_file\<close> up to its dialogs: \<open>confirm\<close> is the
  operator's answer. The \<open>except\<close> branch calls \<open>self._record_error\<close>, a method that
  \<open>SmartDeviceTransport\<close> defines and \<open>SendRawAction\<close> does not: the call raises
  \<open>AttributeError\<close>, and that exception, not the one of the device, leaves the method
  before any dialog. \<open>HandlerRaised\<close> is this outcome.
\<close>

definition no_record_error :: exn where
  "no_record_error =
     Exn AttributeError
       ([39] @ str ''SendRawAction'' @ [39] @ str '' object has no attribute ''
        @ [39] @ str ''_record_error'' @ [39])"

datatype delete_outcome =
  NotConnected | NotFound | Declined | HandlerRaised exn | DeleteDone pystr

definition delete_remote_metadata_file ::
  "device option \<Rightarrow> bool \<Rightarrow> pystr \<Rightarrow> nat option \<Rightarrow> event list
     \<Rightarrow> delete_outcome \<times> event list" where
  "delete_remote_metadata_file device_opt confirm fresh_uuid now tr =
     (case device_opt of
        None \<Rightarrow> (NotConnected, tr)
      | Some dev \<Rightarrow>
          (case locate_remote_metadata_file dev tr of
             (None, tr1) \<Rightarrow> (NotFound, tr1)
           | (Some target, tr1) \<Rightarrow>
               if \<not> confirm then (Declined, tr1)
               else
                 (case purge_and_delete dev target fresh_uuid now tr1 of
                    (Inl e, tr2) \<Rightarrow> (HandlerRaised no_record_error, tr2)
                  | (Inr cleaned, tr2) \<Rightarrow> (DeleteDone cleaned, tr2))))"

section \<open>Task Builder: file names from the template\<close>

text \<open>
  \<open>template.format(author=..., title=..., series=..., series_index=...)\<close>. The
  model covers literal text, the doubled braces \<open>{{\<close> and \<open>}}\<close>, and replacement
  fields that consist of a plain ASCII name: a keyword is substituted, an unknown name
  raises \<open>KeyError\<close>, an empty or numeric name asks for a positional argument and
  raises \<open>IndexError\<close>, an unbalanced brace raises \<open>ValueError\<close>. A field with a
  conversion, a format specification, an attribute or index access, a nested field or a
  non-ASCII name is outside the model, and the result is then \<open>Unmodelled\<close>. Errors are
  raised at the first offending place, from left to right, as the formatter does.
\<close>

datatype fmt_out = Formatted pystr | Raised exn | Unmodelled

definition lbrace :: nat where "lbrace = 123"
definition rbrace :: nat where "rbrace = 125"

text \<open>The characters \<open>! : . [ {\<close> inside a field, and any character beyond ASCII.\<close>

definition field_special :: "nat \<Rightarrow> bool" where
  "field_special c = (c \<in> {33, 58, 46, 91, 123} \<or> c \<ge> 128)"

definition is_digit :: "nat \<Rightarrow> bool" where
  "is_digit c = (48 \<le> c \<and> c \<le> 57)"

definition resolve_field :: "(pystr \<rightharpoonup> pystr) \<Rightarrow> pystr \<Rightarrow> fmt_out" where
  "resolve_field kw nm =
     (if nm = [] then Raised (Exn IndexError (str ''Replacement index 0 out of range''))
      else if list_all is_digit nm then
        (if length nm \<le> 9 then Raised (Exn IndexError (str ''Replacement index out of range''))
         else Unmodelled)
      else
        (case kw nm of
           Some v \<Rightarrow> Formatted v
         | None \<Rightarrow> Raised (Exn KeyError ([39] @ nm @ [39]))))"

text \<open>
  One pass over the template. The second argument is \<open>None\<close> in literal text and
  \<open>Some nm\<close> inside a field whose name so far is \<open>nm\<close>; \<open>out\<close> is the text produced.
\<close>

fun fmt_scan :: "(pystr \<rightharpoonup> pystr) \<Rightarrow> pystr option \<Rightarrow> pystr \<Rightarrow> pystr \<Rightarrow> fmt_out" where
  "fmt_scan kw None out [] = Formatted out"
| "fmt_scan kw (Some nm) out [] =
     Raised (Exn ValueError (str ''expected } before end of string''))"
| "fmt_scan kw None out (c # cs) =
     (if c = lbrace then
        (case cs of
           [] \<Rightarrow> Raised (Exn ValueError (str ''Single { encountered in format string''))
         | d # ds \<Rightarrow>
             if d = lbrace then fmt_scan kw None (out @ [lbrace]) ds
             else fmt_scan kw (Some []) out cs)
      else if c = rbrace then
        (case cs of
           [] \<Rightarrow> Raised (Exn ValueError (str ''Single } encountered in format string''))
         | d # ds \<Rightarrow>
             if d = rbrace then fmt_scan kw None (out @ [rbrace]) ds
             else Raised (Exn ValueError (str ''Single } encountered in format string'')))
      else fmt_scan kw None (out @ [c]) cs)"
| "fmt_scan kw (Some nm) out (c # cs) =
     (if c = rbrace then
        (case resolve_field kw nm of
           Formatted v \<Rightarrow> fmt_scan kw None (out @ v) cs
         | Raised e \<Rightarrow> Raised e
         | Unmodelled \<Rightarrow> Unmodelled)
      else if field_special c then Unmodelled
      else fmt_scan kw (Some (nm @ [c])) out cs)"

definition py_format :: "(pystr \<rightharpoonup> pystr) \<Rightarrow> pystr \<Rightarrow> fmt_out" where
  "py_format kw template = fmt_scan kw None [] template"

text \<open>\<open>str(int(x))\<close>: \<open>int\<close> cuts towards zero.\<close>

definition py_int :: "rat \<Rightarrow> int" where
  "py_int q = (if q \<ge> 0 then \<lfloor>q\<rfloor> else \<lceil>q\<rceil>)"

definition str_int :: "int \<Rightarrow> pystr" where
  "str_int i = (if i < 0 then str ''-'' @ str_nat (nat (- i)) else str_nat (nat i))"

text \<open>\<open>SendRawAction._build_filename(mi, fmt, template)\<close>.\<close>

definition build_filename :: "metadata \<Rightarrow> pystr \<Rightarrow> pystr \<Rightarrow> fmt_out" where
  "build_filename mi fmt template =
     (let author = (case authors mi of [] \<Rightarrow> unknown | a # as \<Rightarrow> a);
          ttl = (case title mi of None \<Rightarrow> unknown | Some t \<Rightarrow> if t = [] then unknown else t);
          ser = (case series mi of None \<Rightarrow> [] | Some s \<Rightarrow> s);
          idx = (case series_index mi of
                   None \<Rightarrow> []
                 | Some q \<Rightarrow> if q = 0 then [] else str_int (py_int q));
          kw = [str ''author'' \<mapsto> safe_filename author,
                str ''title'' \<mapsto> safe_filename ttl,
                str ''series'' \<mapsto> safe_filename ser,
                str ''series_index'' \<mapsto> idx]
      in case py_format kw template of
           Formatted filename \<Rightarrow> Formatted (filename @ str ''.'' @ lower fmt)
         | Raised e \<Rightarrow>
             if exn_class_of e = KeyError \<or> exn_class_of e = ValueError then
               Formatted (safe_filename author @ str '' - '' @ safe_filename ttl
                            @ str ''.'' @ lower fmt)
             else Raised e
         | Unmodelled \<Rightarrow> Unmodelled)"

section \<open>Task Builder: settings, format selection and tasks\<close>

text \<open>
  The settings store \<open>prefs = JSONConfig("plugins/send_raw")\<close>. A record of type
  \<open>prefs\<close> has \<open>None\<close> for a key without a value. \<open>prefs_defaults\<close> are the values
  \<open>config.py\<close> assigns to \<open>prefs.defaults\<close> when the module is imported, which
  \<open>_build_tasks\<close> does before it reads a setting.
\<close>

record prefs =
  pref_preferred_formats :: "pystr list option"
  pref_device_subdir :: "pystr option"
  pref_filename_template :: "pystr option"
  pref_verify_md5 :: "bool option"
  pref_timeout :: "nat option"

definition prefs_defaults :: prefs where
  "prefs_defaults =
     \<lparr>pref_preferred_formats =
        Some [str ''EPUB'', str ''AZW3'', str ''MOBI'', str ''PDF'', str ''CBZ'', str ''CBR''],
      pref_device_subdir = Some [],
      pref_filename_template = Some (str ''{author} - {title}''),
      pref_verify_md5 = Some False,
      pref_timeout = Some 120\<rparr>"

text \<open>
  \<open>prefs.get(key, fallback)\<close>. \<open>JSONConfig\<close> belongs to calibre, not to this
  repository; its \<open>get\<close> returns the stored value of the key, else the value declared in
  \<open>prefs.defaults\<close>, and the fallback of the call only when neither exists.
\<close>

definition prefs_get :: "prefs \<Rightarrow> (prefs \<Rightarrow> 'a option) \<Rightarrow> 'a \<Rightarrow> 'a" where
  "prefs_get p key fallback =
     (case key p of
        Some v \<Rightarrow> v
      | None \<Rightarrow> (case key prefs_defaults of Some d \<Rightarrow> d | None \<Rightarrow> fallback))"

text \<open>The library database and the file store, as \<open>_build_tasks\<close> reads them.\<close>

record library =
  formats :: "nat \<Rightarrow> pystr list"
  get_metadata :: "nat \<Rightarrow> metadata"
  format_abspath :: "nat \<Rightarrow> pystr \<Rightarrow> pystr option"
  path_exists :: "pystr \<Rightarrow> bool"
  getsize :: "pystr \<Rightarrow> nat"

text \<open>The selection of \<open>target_fmt\<close> in the loop of \<open>_build_tasks\<close>.\<close>

definition select_format :: "pystr list \<Rightarrow> pystr option \<Rightarrow> pystr list \<Rightarrow> pystr option" where
  "select_format fmts requested_fmt preferred =
     (if requested_fmt \<noteq> None \<and> requested_fmt \<noteq> Some [] then
        (if upper (the requested_fmt) \<in> set fmts then Some (upper (the requested_fmt))
         else None)
      else
        (case find (\<lambda>f. upper f \<in> set fmts) preferred of
           Some f \<Rightarrow> Some (upper f)
         | None \<Rightarrow> (case fmts of [] \<Rightarrow> None | f # fs \<Rightarrow> Some f)))"

text \<open>The skip reasons: "no format available", "no ... format", "file does not exist".\<close>

definition reason_no_formats :: pystr where
  "reason_no_formats = [32, 45, 32, 0x65E0, 0x53EF, 0x7528, 0x683C, 0x5F0F]"

definition reason_no_fmt :: "pystr option \<Rightarrow> pystr" where
  "reason_no_fmt requested_fmt =
     [32, 45, 32, 0x65E0, 32] @ fstr requested_fmt @ [32, 0x683C, 0x5F0F]"

definition reason_missing :: pystr where
  "reason_missing = [32, 45, 32, 0x6587, 0x4EF6, 0x4E0D, 0x5B58, 0x5728]"

text \<open>
  One iteration of the loop for a book: it is skipped with a reason, or a task is added,
  or the file name cannot be built and the exception leaves \<open>_build_tasks\<close>.
  \<open>fresh_uuid\<close> is the value \<open>str(uuid4())\<close> would have in this iteration.
\<close>

datatype step = Skip pystr | Add task | Abort exn | NotModelled

definition build_step ::
  "library \<Rightarrow> pystr list \<Rightarrow> pystr \<Rightarrow> bool \<Rightarrow> pystr option \<Rightarrow> pystr \<Rightarrow> nat \<Rightarrow> step" where
  "build_step lib preferred template verify requested_fmt fresh_uuid b =
     (if formats lib b = [] then
        Skip (fstr (title (get_metadata lib b)) @ reason_no_formats)
      else
        (case select_format (formats lib b) requested_fmt preferred of
           None \<Rightarrow> Skip (fstr (title (get_metadata lib b)) @ reason_no_fmt requested_fmt)
         | Some target_fmt \<Rightarrow>
             (case format_abspath lib b target_fmt of
                None \<Rightarrow> Skip (fstr (title (get_metadata lib b)) @ reason_missing)
              | Some raw_path \<Rightarrow>
                  if raw_path = [] \<or> \<not> path_exists lib raw_path then
                    Skip (fstr (title (get_metadata lib b)) @ reason_missing)
                  else
                    (let mi = get_metadata lib b;
                         file_size = getsize lib raw_path
                     in case build_filename mi target_fmt template of
                          Raised e \<Rightarrow> Abort e
                        | Unmodelled \<Rightarrow> NotModelled
                        | Formatted filename \<Rightarrow>
                            Add \<lparr>book_id = b, path = raw_path, name = filename,
                                 task_title = title mi,
                                 task_metadata =
                                   prepare_metadata_for_device mi target_fmt file_size None
                                     fresh_uuid,
                                 task_size = file_size, verify_md5 = verify,
                                 format = target_fmt\<rparr>))))"

datatype build_out = Built "task list" "pystr list" | BuildRaised exn | BuildNotModelled

fun build_loop ::
  "library \<Rightarrow> pystr list \<Rightarrow> pystr \<Rightarrow> bool \<Rightarrow> pystr option \<Rightarrow> (nat \<Rightarrow> pystr)
     \<Rightarrow> nat \<Rightarrow> nat list \<Rightarrow> task list \<Rightarrow> pystr list \<Rightarrow> build_out" where
  "build_loop lib preferred template verify requested_fmt uuid4 i [] tasks failed =
     Built tasks failed"
| "build_loop lib preferred template verify requested_fmt uuid4 i (b # bs) tasks failed =
     (case build_step lib preferred template verify requested_fmt (uuid4 i) b of
        Skip reason \<Rightarrow>
          build_loop lib preferred template verify requested_fmt uuid4 (Suc i) bs
            tasks (failed @ [reason])
      | Add t \<Rightarrow>
          build_loop lib preferred template verify requested_fmt uuid4 (Suc i) bs
            (tasks @ [t]) failed
      | Abort e \<Rightarrow> BuildRaised e
      | NotModelled \<Rightarrow> BuildNotModelled)"

text \<open>
  \<open>SendRawAction._build_tasks(book_ids, requested_fmt=None)\<close>; \<open>uuid4 i\<close> is the fresh
  identifier available in iteration \<open>i\<close>.
\<close>

definition build_tasks ::
  "library \<Rightarrow> prefs \<Rightarrow> (nat \<Rightarrow> pystr) \<Rightarrow> nat list \<Rightarrow> pystr option \<Rightarrow> build_out" where
  "build_tasks lib p uuid4 book_ids requested_fmt =
     (let preferred_formats =
            prefs_get p pref_preferred_formats
              [str ''EPUB'', str ''AZW3'', str ''MOBI'', str ''PDF''];
          template = prefs_get p pref_filename_template (str ''{author} - {title}'');
          verify = prefs_get p pref_verify_md5 True
      in build_loop lib preferred_formats template verify requested_fmt uuid4 0 book_ids
           [] [])"

text \<open>The tasks of a finished build (none when it raised).\<close>

fun built_tasks :: "build_out \<Rightarrow> task list" where
  "built_tasks (Built tasks failed) = tasks"
| "built_tasks _ = []"

fun built_failed :: "build_out \<Rightarrow> pystr list" where
  "built_failed (Built tasks failed) = failed"
| "built_failed _ = []"

section \<open>Concrete devices, tasks and surroundings\<close>

text \<open>Inputs on which the operations are evaluated.\<close>

definition mk_task :: "nat \<Rightarrow> pystr \<Rightarrow> task" where
  "mk_task n ttl =
     \<lparr>book_id = n, path = str ''/lib/'' @ ttl, name = ttl @ str ''.epub'',
      task_title = Some ttl, task_metadata = new_metadata ttl [str ''A''], task_size = 1,
      verify_md5 = False, format = str ''EPUB''\<rparr>"

text \<open>A device that accepts every upload and answers \<open>[(name, 1)]\<close>.\<close>

definition dev_accepting :: device where
  "dev_accepting =
     \<lparr>can_send_ok_to_sendbook = Some True,
      upload_books = (\<lambda>tr files names ms. Inr (map (\<lambda>n. PTuple [PStr n, PInt 1]) names)),
      get_file = (\<lambda>tr p. Inr []),
      delete_books = (\<lambda>tr ps. None),
      call_client = (\<lambda>tr op args wait. Inr (Some (str ''OK''), Some Map.empty)),
      send_byte_string = (\<lambda>tr bs. None)\<rparr>"

text \<open>A device that answers every upload with \<open>[(None, -1)]\<close>.\<close>

definition dev_unconfirmed :: device where
  "dev_unconfirmed =
     dev_accepting\<lparr>upload_books := (\<lambda>tr files names ms. Inr [PTuple [PNone, PInt (- 1)]])\<rparr>"

text \<open>A device whose upload raises for the file named \<open>bad\<close> and accepts the others.\<close>

definition dev_failing_on :: "pystr \<Rightarrow> device" where
  "dev_failing_on bad =
     dev_accepting\<lparr>upload_books := (\<lambda>tr files names ms.
        if bad \<in> set names then Inl (Exn OtherError (str ''connection reset''))
        else Inr (map (\<lambda>n. PTuple [PStr n, PInt 1]) names))\<rparr>"

text \<open>Surroundings with a given cancellation behaviour.\<close>

definition env_with :: "(nat \<Rightarrow> bool) \<Rightarrow> env" where
  "env_with ab =
     \<lparr>calculate_md5 = (\<lambda>p. Inr (str ''d41d8cd9'')),
      format_exc = (\<lambda>e. str ''Traceback: '' @ exn_str e),
      abort_is_set = ab\<rparr>"

text \<open>A device that answers the \<open>SEND_BOOK\<close> request with \<open>("ERROR", {"message": "locked"})\<close>.\<close>

definition dev_locked :: device where
  "dev_locked =
     dev_accepting\<lparr>call_client := (\<lambda>tr op args wait.
        Inr (Some (str ''ERROR''), Some [str ''message'' \<mapsto> str ''locked'']))\<rparr>"

text \<open>A device that acknowledges the request with a corrected lpath.\<close>

definition dev_renaming :: device where
  "dev_renaming =
     dev_accepting\<lparr>call_client := (\<lambda>tr op args wait.
        Inr (Some (str ''OK''), Some [str ''lpath'' \<mapsto> str ''inbox/.metadata.calibre'']))\<rparr>"

text \<open>A settings store without any stored value, and a library of one book with one file.\<close>

definition prefs_empty :: prefs where
  "prefs_empty =
     \<lparr>pref_preferred_formats = None, pref_device_subdir = None,
      pref_filename_template = None, pref_verify_md5 = None, pref_timeout = None\<rparr>"

definition lib_one :: library where
  "lib_one =
     \<lparr>formats = (\<lambda>b. if b = 1 then [str ''EPUB'', str ''MOBI''] else []),
      get_metadata = (\<lambda>b. new_metadata (str ''T'') [str ''A'']),
      format_abspath = (\<lambda>b f. Some (str ''/lib/t.'' @ lower f)),
      path_exists = (\<lambda>p. True),
      getsize = (\<lambda>p. 7)\<rparr>"

text \<open>A source of fresh identifiers.\<close>

definition uuid_seq :: "nat \<Rightarrow> pystr" where
  "uuid_seq i = str ''uuid-'' @ str_nat i"
section \<open>Properties of the safe-name transform\<close>

lemma set_strip_subset: "set (strip cs n) \<subseteq> set n"
  by (auto simp: strip_def dest!: set_dropWhileD)

lemma replace_char_notin:
  "a \<notin> set m \<Longrightarrow> a \<noteq> underscore \<Longrightarrow> a \<notin> set (replace_char b m)"
  by (auto simp: replace_char_def)

lemma replace_char_keeps_out:
  "a \<notin> set m \<Longrightarrow> a \<noteq> underscore \<Longrightarrow> a \<notin> set (fold replace_char cs m)"
  by (induction cs arbitrary: m) (simp_all add: replace_char_notin)

lemma replace_char_removes: "a \<noteq> underscore \<Longrightarrow> a \<notin> set (replace_char a m)"
  by (auto simp: replace_char_def)

lemma fold_replace_clean:
  "underscore \<notin> set cs \<Longrightarrow> c \<in> set (fold replace_char cs n) \<Longrightarrow> c \<notin> set cs"
proof (induction cs arbitrary: n)
  case Nil
  then show ?case by simp
next
  case (Cons a cs)
  have a: "a \<noteq> underscore" using Cons.prems(1) by auto
  have "a \<notin> set (fold replace_char cs (replace_char a n))"
    using replace_char_keeps_out replace_char_removes a by blast
  then have "c \<noteq> a"
    using Cons.prems(2) by auto
  moreover have "c \<notin> set cs"
    using Cons.IH[of "replace_char a n"] Cons.prems by simp
  ultimately show ?case by simp
qed

lemma unknown_clean: "c \<in> set unknown \<Longrightarrow> c \<notin> set invalid_chars"
  by (auto simp: unknown_def str_def invalid_chars_def)

lemma safe_filename_no_invalid:
  assumes c: "c \<in> set (safe_filename n)"
  shows "c \<notin> set invalid_chars"
proof -
  let ?n1 = "fold replace_char invalid_chars n"
  let ?n2 = "strip dot_space ?n1"
  have u: "underscore \<notin> set invalid_chars"
    by (simp add: underscore_def invalid_chars_def)
  have "c \<in> set unknown \<or> c \<in> set ?n2"
    using c by (auto simp: safe_filename_def Let_def split: if_splits dest: in_set_takeD)
  then show ?thesis
    using unknown_clean fold_replace_clean[OF u] set_strip_subset by blast
qed

lemma safe_filename_length: "length (safe_filename n) \<le> 100"
  by (simp add: safe_filename_def Let_def unknown_def str_def)

lemma safe_filename_nonempty: "safe_filename n \<noteq> []"
  by (simp add: safe_filename_def Let_def unknown_def str_def)

lemma dropWhile_rev_last:
  "rev (dropWhile P (rev xs)) \<noteq> [] \<Longrightarrow> \<not> P (last (rev (dropWhile P (rev xs))))"
  by (simp add: last_rev hd_dropWhile)

lemma strip_last: "strip cs n \<noteq> [] \<Longrightarrow> last (strip cs n) \<notin> set cs"
  unfolding strip_def using dropWhile_rev_last[of "\<lambda>c. c \<in> set cs"] by blast

lemma safe_filename_short_no_trailing:
  "length (strip dot_space (fold replace_char invalid_chars n)) \<le> 100 \<Longrightarrow>
   last (safe_filename n) \<notin> set dot_space"
  using strip_last[of dot_space "fold replace_char invalid_chars n"]
  by (auto simp: safe_filename_def Let_def unknown_def str_def dot_space_def)

text \<open>
  Claim C7. The safe-name transform is claimed to return, for every input, a name free of
  the unsafe characters, trimmed of trailing dots and spaces, of at most 100 characters and
  never empty. The first, third and fourth parts hold for every input
  (\<open>safe_filename_no_invalid\<close>, \<open>safe_filename_length\<close>, \<open>safe_filename_nonempty\<close>), and
  the trimming holds whenever the trimmed name has at most 100 characters
  (\<open>safe_filename_short_no_trailing\<close>). The source trims before it cuts, though: on the
  101-character name made of 99 letters \<open>a\<close>, a space and a \<open>b\<close>, the cut at 100 leaves
  the space as the last character of the result.
\<close>

theorem safe_filename_trailing_space:
  "safe_filename (replicate 99 97 @ [32, 98]) = replicate 99 97 @ [32]
   \<and> last (safe_filename (replicate 99 97 @ [32, 98])) \<in> set dot_space"
  by (simp add: safe_filename_def invalid_chars_def replace_char_def strip_def dot_space_def
      underscore_def unknown_def str_def)

section \<open>Properties of the Metadata Sanitizer\<close>

lemma prep_extension:
  "extension (prepare_metadata_for_device mi ext sz h fresh) = Val (lower ext)"
  by (simp add: prepare_metadata_for_device_def Let_def split: option.split attr.split)

lemma prep_size: "size (prepare_metadata_for_device mi ext sz h fresh) = Val sz"
  by (simp add: prepare_metadata_for_device_def Let_def split: option.split attr.split)

lemma prep_md5:
  "md5 (prepare_metadata_for_device mi ext sz h fresh) =
     (case h of None \<Rightarrow> md5 mi | Some d \<Rightarrow> if d = [] then md5 mi else Val d)"
  by (simp add: prepare_metadata_for_device_def Let_def split: option.split attr.split)

lemma prep_cover_data:
  "cover_data (prepare_metadata_for_device mi ext sz h fresh) =
     (if hasattr (cover_data mi) then IsNone else Absent)"
  by (cases "cover_data mi")
     (simp_all add: prepare_metadata_for_device_def Let_def split: option.split attr.split)

lemma prep_thumbnail:
  "thumbnail (prepare_metadata_for_device mi ext sz h fresh) =
     (if hasattr (thumbnail mi) then IsNone else Absent)"
  by (cases "thumbnail mi")
     (simp_all add: prepare_metadata_for_device_def Let_def split: option.split attr.split)

lemma prep_format_metadata:
  "format_metadata (prepare_metadata_for_device mi ext sz h fresh) =
     (if hasattr (format_metadata mi) then Val [] else Absent)"
  by (cases "format_metadata mi")
     (simp_all add: prepare_metadata_for_device_def Let_def split: option.split attr.split)

lemma prep_uuid:
  "uuid (prepare_metadata_for_device mi ext sz h fresh) =
     Val (case uuid mi of Val u \<Rightarrow> if u = [] then fresh else u | _ \<Rightarrow> fresh)"
  by (simp add: prepare_metadata_for_device_def Let_def split: option.split attr.split)

text \<open>
  Claim C6. For every source record, format code and byte size, the sanitized record has
  the extension (the lower-cased format code) and the size set; its content hash is the
  given one when a non-empty hash was given and is otherwise left as the source had it;
  the cover data and the thumbnail hold no binary data and the per-format sub-records are
  emptied (each stays missing when the source had no such attribute); and the unique
  identifier is a non-empty string: the source's own when it had a non-empty one, else the
  freshly generated one. The generated identifier is the text of a UUID, hence non-empty.
\<close>

theorem sanitizer_sets_and_clears:
  assumes "fresh \<noteq> []"
  shows "extension (prepare_metadata_for_device mi ext sz h fresh) = Val (lower ext)
    \<and> size (prepare_metadata_for_device mi ext sz h fresh) = Val sz
    \<and> md5 (prepare_metadata_for_device mi ext sz h fresh) =
        (case h of None \<Rightarrow> md5 mi | Some d \<Rightarrow> if d = [] then md5 mi else Val d)
    \<and> cover_data (prepare_metadata_for_device mi ext sz h fresh) \<in> {Absent, IsNone}
    \<and> thumbnail (prepare_metadata_for_device mi ext sz h fresh) \<in> {Absent, IsNone}
    \<and> format_metadata (prepare_metadata_for_device mi ext sz h fresh) \<in> {Absent, Val []}
    \<and> (\<exists>u. uuid (prepare_metadata_for_device mi ext sz h fresh) = Val u \<and> u \<noteq> []
          \<and> u = (case uuid mi of Val v \<Rightarrow> if v = [] then fresh else v | _ \<Rightarrow> fresh))"
  using assms
  by (simp add: prep_extension prep_size prep_md5 prep_cover_data prep_thumbnail
      prep_format_metadata prep_uuid split: attr.split)

theorem sanitizer_sets_and_clears_witness:
  "str ''u-1'' \<noteq> []
   \<and> extension (prepare_metadata_for_device
        ((new_metadata (str ''T'') [str ''A''])\<lparr>cover_data := Val [1, 2, 3]\<rparr>)
        (str ''EPUB'') 42 None (str ''u-1'')) = Val (str ''epub'')
   \<and> size (prepare_metadata_for_device
        ((new_metadata (str ''T'') [str ''A''])\<lparr>cover_data := Val [1, 2, 3]\<rparr>)
        (str ''EPUB'') 42 None (str ''u-1'')) = Val 42
   \<and> cover_data (prepare_metadata_for_device
        ((new_metadata (str ''T'') [str ''A''])\<lparr>cover_data := Val [1, 2, 3]\<rparr>)
        (str ''EPUB'') 42 None (str ''u-1'')) = IsNone
   \<and> uuid (prepare_metadata_for_device
        ((new_metadata (str ''T'') [str ''A''])\<lparr>cover_data := Val [1, 2, 3]\<rparr>)
        (str ''EPUB'') 42 None (str ''u-1'')) = Val (str ''u-1'')"
proof -
  have h: "str ''u-1'' \<noteq> []" by (simp add: str_def)
  show ?thesis
    using h sanitizer_sets_and_clears [OF h,
        of "(new_metadata (str ''T'') [str ''A''])\<lparr>cover_data := Val [1, 2, 3]\<rparr>"
           "str ''EPUB''" 42 None]
    by (simp add: prepare_metadata_for_device_def new_metadata_def lower_def lower_char_def
        str_def)
qed

text \<open>
  The older copy of the function in the top-level \<open>ui.py\<close> leaves the cover data, the
  thumbnail, the per-format sub-records and the identifier as the source record has them.
\<close>

lemma legacy_sanitizer_keeps:
  "cover_data (prepare_metadata_for_device_legacy mi ext sz h) = cover_data mi
   \<and> thumbnail (prepare_metadata_for_device_legacy mi ext sz h) = thumbnail mi
   \<and> format_metadata (prepare_metadata_for_device_legacy mi ext sz h) = format_metadata mi
   \<and> uuid (prepare_metadata_for_device_legacy mi ext sz h) = uuid mi"
  by (simp add: prepare_metadata_for_device_legacy_def Let_def split: option.split)

section \<open>Properties of the Transport Client and the Batch Coordinator\<close>

lemma attach_md5_fields [simp]:
  "path (attach_md5 en t) = path t" "name (attach_md5 en t) = name t"
  "task_title (attach_md5 en t) = task_title t"
  by (simp_all add: attach_md5_def split: sum.split)

lemma md5_step_fields [simp]:
  "trace (md5_step en tot i t st) = trace st"
  "error_reports (md5_step en tot i t st) = error_reports st"
  "success_titles (md5_step en tot i t st) = success_titles st"
  "failed_list (md5_step en tot i t st) = failed_list st"
  "upload_locations (md5_step en tot i t st) = upload_locations st"
  "upload_metadata (md5_step en tot i t st) = upload_metadata st"
  by (simp_all add: md5_step_def Let_def split: sum.split)

lemma process_task_trace:
  "trace (process_task dev en tot i t st) = trace st @ [upload_event (attach_md5 en t)]"
  by (simp add: process_task_def send_single_book_def Let_def split: sum.split list.split)

lemma process_task_count:
  "length (success_titles (process_task dev en tot i t st))
     + length (failed_list (process_task dev en tot i t st))
   = Suc (length (success_titles st) + length (failed_list st))"
  by (simp add: process_task_def send_single_book_def Let_def split: sum.split list.split)

lemma process_task_ok:
  assumes "upload_books dev (trace st) [path t] [name t] [task_metadata (attach_md5 en t)]
             = Inr (p # ps)" and "truthy p"
  shows "success_titles (process_task dev en tot i t st) = success_titles st @ [task_title t]"
    and "failed_list (process_task dev en tot i t st) = failed_list st"
    and "error_reports (process_task dev en tot i t st) = error_reports st"
    and "upload_locations (process_task dev en tot i t st) = upload_locations st @ [p]"
    and "upload_metadata (process_task dev en tot i t st)
           = upload_metadata st @ [task_metadata (attach_md5 en t)]"
  using assms by (simp_all add: process_task_def send_single_book_def Let_def)

lemma process_task_raises:
  assumes "upload_books dev (trace st) [path t] [name t] [task_metadata (attach_md5 en t)]
             = Inl e"
  shows "success_titles (process_task dev en tot i t st) = success_titles st"
    and "failed_list (process_task dev en tot i t st)
           = failed_list st @ [(task_title t, Some (exn_str e))]"
    and "error_reports (process_task dev en tot i t st)
           = record_error (format_exc en) (error_reports st) (task_title t) e"
    and "upload_locations (process_task dev en tot i t st) = upload_locations st"
    and "upload_metadata (process_task dev en tot i t st) = upload_metadata st"
  using assms by (simp_all add: process_task_def send_single_book_def Let_def)

lemma startswith_append: "startswith (a @ b) a"
  by (induction a) simp_all

lemma startswith_refl: "startswith a a"
  by (induction a) simp_all

lemma record_error_shape:
  "\<exists>m d. record_error fe rs ttl e = rs @ [(ttl, m, d)]
         \<and> startswith m (exn_str e) \<and> startswith d (fe e)"
  by (simp add: record_error_def Let_def startswith_append startswith_refl)

text \<open>Cancellation at iteration \<open>i + k\<close> leaves exactly the run over the first \<open>k\<close> tasks.\<close>

lemma worker_loop_cancelled:
  "k < length ts \<Longrightarrow> \<forall>j<k. \<not> abort_is_set en (i + j) \<Longrightarrow> abort_is_set en (i + k) \<Longrightarrow>
   worker_loop dev en tot i ts st = worker_loop dev en tot i (take k ts) st"
proof (induction ts arbitrary: i k st)
  case Nil
  then show ?case by simp
next
  case (Cons t ts)
  show ?case
  proof (cases k)
    case 0
    then show ?thesis using Cons.prems by simp
  next
    case (Suc k')
    have now: "\<not> abort_is_set en i" using Cons.prems(2) Suc by force
    have later: "\<forall>j<k'. \<not> abort_is_set en (Suc i + j)"
      using Cons.prems(2) Suc by force
    have stop: "abort_is_set en (Suc i + k')" using Cons.prems(3) Suc by simp
    have "k' < length ts" using Cons.prems(1) Suc by simp
    from Cons.IH[OF this later stop] show ?thesis using now Suc by simp
  qed
qed

lemma worker_loop_count:
  "\<forall>j<length ts. \<not> abort_is_set en (i + j) \<Longrightarrow>
   length (success_titles (worker_loop dev en tot i ts st))
     + length (failed_list (worker_loop dev en tot i ts st))
   = length (success_titles st) + length (failed_list st) + length ts"
proof (induction ts arbitrary: i st)
  case Nil
  then show ?case by simp
next
  case (Cons t ts)
  have now: "\<not> abort_is_set en i" using Cons.prems by force
  have later: "\<forall>j<length ts. \<not> abort_is_set en (Suc i + j)" using Cons.prems by force
  show ?case
    using Cons.IH[OF later, of "process_task dev en tot i t st"] now
    by (simp add: process_task_count)
qed

lemma worker_loop_trace:
  "\<forall>j<length ts. \<not> abort_is_set en (i + j) \<Longrightarrow>
   trace (worker_loop dev en tot i ts st)
   = trace st @ map (\<lambda>t. upload_event (attach_md5 en t)) ts"
proof (induction ts arbitrary: i st)
  case Nil
  then show ?case by simp
next
  case (Cons t ts)
  have now: "\<not> abort_is_set en i" using Cons.prems by force
  have later: "\<forall>j<length ts. \<not> abort_is_set en (Suc i + j)" using Cons.prems by force
  show ?case
    using Cons.IH[OF later, of "process_task dev en tot i t st"] now
    by (simp add: process_task_trace)
qed

lemma unconfirmed_on_falsy:
  assumes "upload_books dev tr [path t] [name t] [task_metadata t] = Inr ps"
    and "ps = [] \<or> \<not> truthy (hd ps)"
  shows "send_single_book dev fe rs tr t
           = ((False, Some msg_unconfirmed, PNone), rs, tr @ [upload_event t])"
  using assms by (auto simp: send_single_book_def Let_def split: list.split)

text \<open>
  Claim C1. When the device's upload answers with a falsy confirmation, in particular with
  the one-element list \<open>[(None, -1)]\<close>, the single-book send is claimed to fail with the
  reason "transfer unconfirmed" and no location. An empty list and a first entry that is
  itself falsy are classified so (\<open>unconfirmed_on_falsy\<close>). The entry \<open>(None, -1)\<close> is a
  two-component tuple, which the truth test of the source accepts: the send reports
  success with that tuple as location, and the worker lists the title as succeeded and
  stages the tuple for the catalog sync. The batch send of the older \<open>ui.py\<close> tests the
  length component and rejects the same entry.
\<close>

theorem unconfirmed_tuple_reported_as_success:
  "send_single_book dev_unconfirmed fe rs tr t
     = ((True, None, PTuple [PNone, PInt (- 1)]), rs, tr @ [upload_event t])
   \<and> (\<exists>st. send_raw_books_worker [mk_task 1 (str ''b'')] (Some dev_unconfirmed)
              (env_with (\<lambda>i. False)) [] = Inr st
          \<and> success_titles st = [Some (str ''b'')] \<and> failed_list st = []
          \<and> upload_locations st = [PTuple [PNone, PInt (- 1)]])
   \<and> entry_accepted (PTuple [PNone, PInt (- 1)]) = Some False"
  by (simp add: send_single_book_def dev_unconfirmed_def dev_accepting_def Let_def
      send_raw_books_worker_def process_task_def init_wstate_def mk_task_def env_with_def
      md5_step_def attach_md5_def)

text \<open>The worker's result lists, task by task, in terms of the device's answers.\<close>

lemma reply_at_0:
  "reply_at dev en tr (t # ts) 0
     = upload_books dev tr [path t] [name t] [task_metadata (attach_md5 en t)]"
  by (simp add: reply_at_def)

lemma reply_at_Suc:
  "reply_at dev en tr (t # ts) (Suc j)
     = reply_at dev en (tr @ [upload_event (attach_md5 en t)]) ts j"
  by (simp add: reply_at_def)

lemma upt_0_Suc: "[0..<Suc n] = 0 # map Suc [0..<n]"
  by (simp add: upt_conv_Cons map_Suc_upt del: upt_Suc)

lemma index_split:
  "map f (filter P [0..<Suc n])
     = (if P 0 then [f 0] else []) @ map (\<lambda>j. f (Suc j)) (filter (\<lambda>j. P (Suc j)) [0..<n])"
  by (simp add: upt_0_Suc filter_map comp_def del: upt_Suc)

lemma process_task_outcome:
  "success_titles (process_task dev en tot i t st)
     = success_titles st @
       (if confirmed (upload_books dev (trace st) [path t] [name t]
                        [task_metadata (attach_md5 en t)])
        then [task_title t] else [])"
  "failed_list (process_task dev en tot i t st)
     = failed_list st @
       (if confirmed (upload_books dev (trace st) [path t] [name t]
                        [task_metadata (attach_md5 en t)])
        then []
        else [(task_title t,
               refusal (upload_books dev (trace st) [path t] [name t]
                          [task_metadata (attach_md5 en t)]))])"
  "upload_locations (process_task dev en tot i t st)
     = upload_locations st @
       (if confirmed (upload_books dev (trace st) [path t] [name t]
                        [task_metadata (attach_md5 en t)])
        then [location_of (upload_books dev (trace st) [path t] [name t]
                             [task_metadata (attach_md5 en t)])]
        else [])"
  by (simp_all add: process_task_def send_single_book_def Let_def
      split: sum.split list.split)

lemma process_task_reports:
  "error_reports (process_task dev en tot i t st)
     = (case upload_books dev (trace st) [path t] [name t]
               [task_metadata (attach_md5 en t)] of
          Inl e \<Rightarrow> record_error (format_exc en) (error_reports st) (task_title t) e
        | Inr ps \<Rightarrow> error_reports st)"
  by (simp add: process_task_def send_single_book_def Let_def split: sum.split list.split)

lemma record_error_titles:
  "map fst (record_error fe rs ttl e) = map fst rs @ [ttl]"
  by (simp add: record_error_def Let_def)

lemma process_task_report_titles:
  "map fst (error_reports (process_task dev en tot i t st))
     = map fst (error_reports st) @
       (if isl (upload_books dev (trace st) [path t] [name t]
                  [task_metadata (attach_md5 en t)])
        then [task_title t] else [])"
  by (simp add: process_task_reports record_error_titles split: sum.split)

lemma worker_loop_outcomes:
  "\<forall>j<length ts. \<not> abort_is_set en (i + j) \<Longrightarrow>
   success_titles (worker_loop dev en tot i ts st)
     = success_titles st @
       map (\<lambda>j. task_title (ts ! j))
         (filter (\<lambda>j. confirmed (reply_at dev en (trace st) ts j)) [0..<length ts])
   \<and> failed_list (worker_loop dev en tot i ts st)
     = failed_list st @
       map (\<lambda>j. (task_title (ts ! j), refusal (reply_at dev en (trace st) ts j)))
         (filter (\<lambda>j. \<not> confirmed (reply_at dev en (trace st) ts j)) [0..<length ts])
   \<and> upload_locations (worker_loop dev en tot i ts st)
     = upload_locations st @
       map (\<lambda>j. location_of (reply_at dev en (trace st) ts j))
         (filter (\<lambda>j. confirmed (reply_at dev en (trace st) ts j)) [0..<length ts])
   \<and> map fst (error_reports (worker_loop dev en tot i ts st))
     = map fst (error_reports st) @
       map (\<lambda>j. task_title (ts ! j))
         (filter (\<lambda>j. isl (reply_at dev en (trace st) ts j)) [0..<length ts])"
proof (induction ts arbitrary: i st)
  case Nil
  then show ?case by simp
next
  case (Cons t ts)
  have now: "\<not> abort_is_set en i" using Cons.prems by force
  have later: "\<forall>j<length ts. \<not> abort_is_set en (Suc i + j)" using Cons.prems by force
  show ?case
    using Cons.IH[OF later, of "process_task dev en tot i t st"] now
    by (simp add: index_split reply_at_0 reply_at_Suc process_task_trace
        process_task_outcome process_task_report_titles del: upt_Suc)
qed

lemma worker_loop_reports_mono:
  "set (error_reports st) \<subseteq> set (error_reports (worker_loop dev en tot i ts st))"
proof (induction ts arbitrary: i st)
  case Nil
  then show ?case by simp
next
  case (Cons t ts)
  have "set (error_reports st) \<subseteq> set (error_reports (process_task dev en tot i t st))"
    by (auto simp: process_task_reports record_error_def Let_def split: sum.split)
  with Cons.IH[of "process_task dev en tot i t st" "Suc i"] show ?case by auto
qed

lemma worker_loop_report:
  "\<forall>j<length ts. \<not> abort_is_set en (i + j) \<Longrightarrow> k < length ts \<Longrightarrow>
   reply_at dev en (trace st) ts k = Inl e \<Longrightarrow>
   \<exists>m d. (task_title (ts ! k), m, d) \<in> set (error_reports (worker_loop dev en tot i ts st))
     \<and> startswith m (exn_str e) \<and> startswith d (format_exc en e)"
proof (induction ts arbitrary: i k st)
  case Nil
  then show ?case by simp
next
  case (Cons t ts)
  have now: "\<not> abort_is_set en i" using Cons.prems(1) by force
  have later: "\<forall>j<length ts. \<not> abort_is_set en (Suc i + j)" using Cons.prems(1) by force
  let ?s1 = "process_task dev en tot i t st"
  show ?case
  proof (cases k)
    case 0
    have up: "upload_books dev (trace st) [path t] [name t]
        [task_metadata (attach_md5 en t)] = Inl e"
      using Cons.prems(3) 0 by (simp add: reply_at_0)
    obtain m d where md: "record_error (format_exc en) (error_reports st) (task_title t) e
          = error_reports st @ [(task_title t, m, d)]"
        "startswith m (exn_str e)" "startswith d (format_exc en e)"
      using record_error_shape by blast
    have "(task_title t, m, d) \<in> set (error_reports ?s1)"
      by (simp add: process_task_reports up md(1))
    then have "(task_title t, m, d) \<in> set (error_reports (worker_loop dev en tot (Suc i) ts ?s1))"
      using worker_loop_reports_mono by blast
    then show ?thesis using 0 now md(2,3) by auto
  next
    case (Suc k')
    have k': "k' < length ts" using Cons.prems(2) Suc by simp
    have r: "reply_at dev en (trace ?s1) ts k' = Inl e"
      using Cons.prems(3) Suc by (simp add: reply_at_Suc process_task_trace)
    from Cons.IH[OF later k' r] show ?thesis using Suc now by simp
  qed
qed

text \<open>
  Claim C4. A task whose send raises is recorded as failed with the text of its
  exception and does not end the batch, at whatever position of whatever batch it
  stands. When the flag is never set the worker returns normally, every task has been
  sent, and each task's outcome is read from the device's answer to its own send alone:
  the succeeded titles are those of the confirmed sends, in order, with their locations;
  the failures are the other tasks, in order, each with its reason; the error reports
  are those of the raising sends, in order, and the one of the raising task begins with
  the text and the trace of its exception; the last progress update has the fraction 1.
  For three tasks of which the second raises this gives tasks 1 and 3 as succeeded and
  task 2 as the one failure.
\<close>

theorem partial_failure_keeps_batch:
  assumes "\<forall>i<length tasks. \<not> abort_is_set en i"
    and "k < length tasks"
    and "reply_at dev en tr tasks k = Inl e"
  shows "\<exists>st. send_raw_books_worker tasks (Some dev) en tr = Inr st
     \<and> success_titles st
         = map (\<lambda>j. task_title (tasks ! j))
             (filter (\<lambda>j. confirmed (reply_at dev en tr tasks j)) [0..<length tasks])
     \<and> failed_list st
         = map (\<lambda>j. (task_title (tasks ! j), refusal (reply_at dev en tr tasks j)))
             (filter (\<lambda>j. \<not> confirmed (reply_at dev en tr tasks j)) [0..<length tasks])
     \<and> upload_locations st
         = map (\<lambda>j. location_of (reply_at dev en tr tasks j))
             (filter (\<lambda>j. confirmed (reply_at dev en tr tasks j)) [0..<length tasks])
     \<and> map fst (error_reports st)
         = map (\<lambda>j. task_title (tasks ! j))
             (filter (\<lambda>j. isl (reply_at dev en tr tasks j)) [0..<length tasks])
     \<and> (task_title (tasks ! k), Some (exn_str e)) \<in> set (failed_list st)
     \<and> (\<exists>m d. (task_title (tasks ! k), m, d) \<in> set (error_reports st)
            \<and> startswith m (exn_str e) \<and> startswith d (format_exc en e))
     \<and> length (success_titles st) + length (failed_list st) = length tasks
     \<and> trace st = tr @ map (\<lambda>t. upload_event (attach_md5 en t)) tasks
     \<and> last (notifications st) = (1, msg_done)"
proof -
  let ?n = "length tasks"
  let ?s0 = "init_wstate tr"
  let ?fin = "worker_loop dev en ?n 0 tasks ?s0"
  have run: "\<forall>j<length tasks. \<not> abort_is_set en (0 + j)" using assms(1) by simp
  have init: "success_titles ?s0 = []" "failed_list ?s0 = []" "upload_locations ?s0 = []"
    "error_reports ?s0 = []" "trace ?s0 = tr"
    by (simp_all add: init_wstate_def)
  note out = worker_loop_outcomes[OF run, of dev ?n ?s0, unfolded init, simplified]
  have fl: "failed_list ?fin
      = map (\<lambda>j. (task_title (tasks ! j), refusal (reply_at dev en tr tasks j)))
          (filter (\<lambda>j. \<not> confirmed (reply_at dev en tr tasks j)) [0..<length tasks])"
    using out by blast
  have "k \<in> set (filter (\<lambda>j. \<not> confirmed (reply_at dev en tr tasks j)) [0..<length tasks])"
    using assms(2,3) by simp
  then have mem: "(task_title (tasks ! k), Some (exn_str e)) \<in> set (failed_list ?fin)"
    unfolding fl using assms(3) by force
  have rep: "\<exists>m d. (task_title (tasks ! k), m, d) \<in> set (error_reports ?fin)
      \<and> startswith m (exn_str e) \<and> startswith d (format_exc en e)"
    using worker_loop_report[OF run assms(2), of dev ?s0 e ?n] assms(3) init(5) by simp
  have cnt: "length (success_titles ?fin) + length (failed_list ?fin) = length tasks"
    using worker_loop_count[OF run, of dev ?n ?s0] by (simp add: init)
  have trc: "trace ?fin = tr @ map (\<lambda>t. upload_event (attach_md5 en t)) tasks"
    using worker_loop_trace[OF run, of dev ?n ?s0] by (simp add: init)
  show ?thesis
    using out mem rep cnt trc by (simp add: send_raw_books_worker_def Let_def)
qed

theorem partial_failure_keeps_batch_witness:
  "\<exists>st. send_raw_books_worker
           [mk_task 1 (str ''one''), mk_task 2 (str ''two''), mk_task 3 (str ''three'')]
           (Some (dev_failing_on (str ''two.epub''))) (env_with (\<lambda>i. False)) [] = Inr st
     \<and> success_titles st = [Some (str ''one''), Some (str ''three'')]
     \<and> failed_list st = [(Some (str ''two''), Some (str ''connection reset''))]
     \<and> upload_locations st
         = [PTuple [PStr (str ''one.epub''), PInt 1], PTuple [PStr (str ''three.epub''), PInt 1]]
     \<and> map fst (error_reports st) = [Some (str ''two'')]
     \<and> (\<exists>m d. (Some (str ''two''), m, d) \<in> set (error_reports st)
            \<and> startswith m (str ''connection reset'')
            \<and> startswith d (str ''Traceback: connection reset''))
     \<and> last (notifications st) = (1, msg_done)"
proof -
  define ts where
    "ts = [mk_task 1 (str ''one''), mk_task 2 (str ''two''), mk_task 3 (str ''three'')]"
  let ?en = "env_with (\<lambda>i. False)"
  let ?dev = "dev_failing_on (str ''two.epub'')"
  have a: "\<forall>i<length ts. \<not> abort_is_set ?en i" by (simp add: env_with_def)
  have k: "Suc 0 < length ts" by (simp add: ts_def)
  have r0: "reply_at ?dev ?en [] ts 0 = Inr [PTuple [PStr (str ''one.epub''), PInt 1]]"
    by (simp add: ts_def reply_at_def dev_failing_on_def dev_accepting_def mk_task_def str_def)
  have r1: "reply_at ?dev ?en [] ts (Suc 0) = Inl (Exn OtherError (str ''connection reset''))"
    by (simp add: ts_def reply_at_def dev_failing_on_def dev_accepting_def mk_task_def str_def)
  have r2: "reply_at ?dev ?en [] ts (Suc (Suc 0))
      = Inr [PTuple [PStr (str ''three.epub''), PInt 1]]"
    by (simp add: ts_def reply_at_def dev_failing_on_def dev_accepting_def mk_task_def str_def)
  have idx: "[0..<length ts] = [0, Suc 0, Suc (Suc 0)]"
    by (simp add: ts_def upt_conv_Cons del: upt_Suc)
  have fe: "format_exc ?en (Exn OtherError (str ''connection reset''))
      = str ''Traceback: connection reset''"
    by (simp add: env_with_def str_def)
  have tt: "task_title (ts ! 0) = Some (str ''one'')"
    "task_title (ts ! Suc 0) = Some (str ''two'')"
    "task_title (ts ! Suc (Suc 0)) = Some (str ''three'')"
    by (simp_all add: ts_def mk_task_def)
  from partial_failure_keeps_batch [OF a k r1] show ?thesis
    unfolding ts_def[symmetric] idx
    apply -
    apply (erule exE)
    apply (elim conjE)
    apply (rule exI)
    apply (intro conjI)
          apply assumption
         apply (simp_all add: r0 r1 r2 fe tt)
    done
qed

text \<open>
  Claim C5. If the cancellation flag is first seen set at the check before task \<open>k + 1\<close>
  of \<open>n\<close> (so after \<open>k\<close> tasks were processed), the worker returns normally with exactly
  \<open>k\<close> outcomes, the device has seen uploads of the first \<open>k\<close> tasks only, the results
  are those accumulated by processing just these \<open>k\<close> tasks, and the final progress
  update with fraction 1 is still emitted.
\<close>

theorem cancel_keeps_processed:
  assumes "k < length tasks" and "\<forall>i<k. \<not> abort_is_set en i" and "abort_is_set en k"
  shows "\<exists>st. send_raw_books_worker tasks (Some dev) en tr = Inr st
     \<and> length (success_titles st) + length (failed_list st) = k
     \<and> trace st = tr @ map (\<lambda>t. upload_event (attach_md5 en t)) (take k tasks)
     \<and> success_titles st
         = success_titles (worker_loop dev en (length tasks) 0 (take k tasks) (init_wstate tr))
     \<and> failed_list st
         = failed_list (worker_loop dev en (length tasks) 0 (take k tasks) (init_wstate tr))
     \<and> error_reports st
         = error_reports (worker_loop dev en (length tasks) 0 (take k tasks) (init_wstate tr))
     \<and> upload_locations st
         = upload_locations (worker_loop dev en (length tasks) 0 (take k tasks) (init_wstate tr))
     \<and> upload_metadata st
         = upload_metadata (worker_loop dev en (length tasks) 0 (take k tasks) (init_wstate tr))
     \<and> last (notifications st) = (1, msg_done)"
proof -
  let ?n = "length tasks"
  let ?s0 = "init_wstate tr"
  have cut: "worker_loop dev en ?n 0 tasks ?s0 = worker_loop dev en ?n 0 (take k tasks) ?s0"
    using worker_loop_cancelled[of k tasks en 0 dev ?n ?s0] assms by simp
  have run: "\<forall>j<length (take k tasks). \<not> abort_is_set en (0 + j)"
    using assms(1,2) by simp
  have cnt: "length (success_titles (worker_loop dev en ?n 0 (take k tasks) ?s0))
      + length (failed_list (worker_loop dev en ?n 0 (take k tasks) ?s0)) = k"
    using worker_loop_count[OF run, of dev ?n ?s0] assms(1) by (simp add: init_wstate_def)
  have trc: "trace (worker_loop dev en ?n 0 (take k tasks) ?s0)
      = tr @ map (\<lambda>t. upload_event (attach_md5 en t)) (take k tasks)"
    using worker_loop_trace[OF run, of dev ?n ?s0] by (simp add: init_wstate_def)
  show ?thesis
    using cut cnt trc by (simp add: send_raw_books_worker_def Let_def)
qed

theorem cancel_keeps_processed_witness:
  "(1::nat) < length (map (\<lambda>n. mk_task n (str ''b'' @ str_nat n)) [1, 2, 3, 4, 5])
   \<and> \<not> abort_is_set (env_with (\<lambda>i. 1 \<le> i)) 0
   \<and> abort_is_set (env_with (\<lambda>i. 1 \<le> i)) 1
   \<and> (\<exists>st. send_raw_books_worker (map (\<lambda>n. mk_task n (str ''b'' @ str_nat n)) [1, 2, 3, 4, 5])
              (Some dev_accepting) (env_with (\<lambda>i. 1 \<le> i)) [] = Inr st
        \<and> length (success_titles st) + length (failed_list st) = 1
        \<and> length (trace st) = 1
        \<and> last (notifications st) = (1, msg_done))"
proof -
  have h1: "(1::nat) < length (map (\<lambda>n. mk_task n (str ''b'' @ str_nat n)) [1, 2, 3, 4, 5])"
    by simp
  have h2: "\<forall>i<1. \<not> abort_is_set (env_with (\<lambda>i. 1 \<le> i)) i"
    by (simp add: env_with_def)
  have h3: "abort_is_set (env_with (\<lambda>i. 1 \<le> i)) 1"
    by (simp add: env_with_def)
  show ?thesis
    using h1 h2 h3 cancel_keeps_processed [OF h1 h2 h3, of dev_accepting "[]"]
    by auto
qed

section \<open>Properties of the remote catalog reset\<close>

text \<open>
  On every path the reset takes the lock first and releases it last, with no other lock
  event in between: the request, the wait for its answer and the byte stream all happen
  while the lock is held.
\<close>

lemma purge_holds_lock:
  "\<exists>mid. snd (purge_remote_metadata_file dev lp u now tr) = tr @ [LockAcquire] @ mid @ [LockRelease]
     \<and> LockAcquire \<notin> set mid \<and> LockRelease \<notin> set mid"
  by (simp add: purge_remote_metadata_file_def Let_def split: sum.split option.split prod.split)

text \<open>
  Claim C2. When the device wants the acknowledgement before the bytes
  (\<open>can_send_ok_to_sendbook\<close> is true) and answers the crafted \<open>SEND_BOOK\<close> request with
  the opcode \<open>ERROR\<close>, the reset raises a \<open>RuntimeError\<close> that carries the \<open>message\<close>
  field of the answer (the text \<open>SEND_BOOK failed\<close> when the answer has no such field).
  The events it adds are the lock being taken, the request sent with
  \<open>wait_for_response\<close> true, and the lock being released: no byte string is sent, and
  the request and the wait for its answer lie between taking and releasing the lock.
\<close>

theorem reset_error_is_fatal:
  assumes "can_send_ok_to_sendbook dev = Some True"
    and "call_client dev (tr @ [LockAcquire]) send_book (reset_args lp u now True) True
           = Inr (Some (str ''ERROR''), Some r)"
  shows "purge_remote_metadata_file dev lp u now tr
     = (Inl (Exn RuntimeError
              (case r (str ''message'') of None \<Rightarrow> str ''SEND_BOOK failed'' | Some m \<Rightarrow> m)),
        tr @ [LockAcquire, CallClient send_book (reset_args lp u now True) True, LockRelease])"
  using assms
  by (simp add: purge_remote_metadata_file_def wait_for_ack_def read_ack_def Let_def)

theorem reset_error_is_fatal_witness:
  "purge_remote_metadata_file dev_locked (str ''.metadata.calibre'') (str ''u-1'') None []
     = (Inl (Exn RuntimeError (str ''locked'')),
        [LockAcquire,
         CallClient send_book (reset_args (str ''.metadata.calibre'') (str ''u-1'') None True) True,
         LockRelease])"
proof -
  have h1: "can_send_ok_to_sendbook dev_locked = Some True"
    by (simp add: dev_locked_def dev_accepting_def)
  have h2: "call_client dev_locked ([] @ [LockAcquire]) send_book
      (reset_args (str ''.metadata.calibre'') (str ''u-1'') None True) True
      = Inr (Some (str ''ERROR''), Some [str ''message'' \<mapsto> str ''locked''])"
    by (simp add: dev_locked_def dev_accepting_def)
  show ?thesis
    using reset_error_is_fatal [OF h1 h2] by simp
qed

lemma payload_nonempty: "payload \<noteq> []"
  by (simp add: payload_def)

lemma read_ack_ok:
  "read_ack lp opcode result = Inr c \<Longrightarrow>
   opcode \<noteq> Some (str ''ERROR'')
   \<and> (\<exists>r. result = Some r \<and> c = (case r (str ''lpath'') of None \<Rightarrow> lp | Some l \<Rightarrow> l))"
  by (cases result) (auto simp: read_ack_def split: if_splits)

lemma purge_call_raises:
  "wait_for_ack dev = w \<Longrightarrow>
   call_client dev (tr @ [LockAcquire]) send_book (reset_args lp u now w) w = Inl e \<Longrightarrow>
   fst (purge_remote_metadata_file dev lp u now tr) = Inl e"
  by (simp add: purge_remote_metadata_file_def Let_def)

lemma purge_after_call:
  "wait_for_ack dev = w \<Longrightarrow>
   call_client dev (tr @ [LockAcquire]) send_book (reset_args lp u now w) w
     = Inr (opcode, result) \<Longrightarrow>
   purge_remote_metadata_file dev lp u now tr =
     (case (if w then read_ack lp opcode result else Inr lp) of
        Inl e \<Rightarrow>
          (Inl e, tr @ [LockAcquire, CallClient send_book (reset_args lp u now w) w,
                        LockRelease])
      | Inr lp' \<Rightarrow>
          (case send_byte_string dev
                  (tr @ [LockAcquire, CallClient send_book (reset_args lp u now w) w])
                  payload of
             Some e \<Rightarrow>
               (Inl e, tr @ [LockAcquire, CallClient send_book (reset_args lp u now w) w,
                             SendByteString payload, LockRelease])
           | None \<Rightarrow>
               (Inr lp', tr @ [LockAcquire, CallClient send_book (reset_args lp u now w) w,
                               SendByteString payload, LockRelease])))"
  by (simp add: purge_remote_metadata_file_def Let_def payload_nonempty
      split: sum.split option.split)

lemma purge_streams:
  assumes "(case send_byte_string dev tr2 payload of
              Some e \<Rightarrow> (Inl e, t1) | None \<Rightarrow> (Inr c, t1)) = (Inr cleaned, tr')"
  shows "cleaned = c \<and> tr' = t1"
  using assms by (cases "send_byte_string dev tr2 payload") simp_all

lemma purge_success:
  assumes ok: "purge_remote_metadata_file dev lp u now tr = (Inr cleaned, tr')"
  shows "tr' = tr @ [LockAcquire,
                    CallClient send_book (reset_args lp u now (wait_for_ack dev))
                      (wait_for_ack dev),
                    SendByteString payload, LockRelease]
     \<and> (if wait_for_ack dev
         then \<exists>opcode r. call_client dev (tr @ [LockAcquire]) send_book
                          (reset_args lp u now True) True = Inr (opcode, Some r)
                \<and> opcode \<noteq> Some (str ''ERROR'')
                \<and> cleaned = (case r (str ''lpath'') of None \<Rightarrow> lp | Some l \<Rightarrow> l)
         else cleaned = lp)"
proof -
  define w where "w = wait_for_ack dev"
  have w: "wait_for_ack dev = w" by (simp add: w_def)
  show ?thesis
  proof (cases "call_client dev (tr @ [LockAcquire]) send_book (reset_args lp u now w) w")
    case (Inl e)
    from purge_call_raises[OF w Inl] ok show ?thesis by simp
  next
    case (Inr answer)
    obtain opcode result where answer: "answer = (opcode, result)" by (cases answer)
    note eq = purge_after_call[OF w Inr[unfolded answer]]
    show ?thesis
    proof (cases w)
      case True
      have "\<exists>c. read_ack lp opcode result = Inr c"
        using ok eq True by (cases "read_ack lp opcode result") simp_all
      then obtain c where ack: "read_ack lp opcode result = Inr c" ..
      have "cleaned = c \<and> tr' = tr @ [LockAcquire,
          CallClient send_book (reset_args lp u now w) w, SendByteString payload, LockRelease]"
        using ok eq True ack by (intro purge_streams) simp
      moreover from read_ack_ok[OF ack] obtain r where
        "opcode \<noteq> Some (str ''ERROR'')" "result = Some r"
        "c = (case r (str ''lpath'') of None \<Rightarrow> lp | Some l \<Rightarrow> l)"
        by blast
      ultimately show ?thesis
        using True Inr answer w by auto
    next
      case False
      have "cleaned = lp \<and> tr' = tr @ [LockAcquire,
          CallClient send_book (reset_args lp u now w) w, SendByteString payload, LockRelease]"
        using ok eq False by (intro purge_streams) simp
      then show ?thesis using False w by simp
    qed
  qed
qed

text \<open>
  Claim C3, as the source has it. The claim calls the impersonated transfer zero-length.
  The request declares the length 2 and the two bytes \<open>[]\<close> of an empty JSON list are
  streamed after it, as the evaluation on an accepting device shows.
\<close>

theorem reset_transfer_length_two:
  "snd (purge_remote_metadata_file dev_accepting (str ''.metadata.calibre'') (str ''u-1'') None [])
     = [LockAcquire,
        CallClient send_book (reset_args (str ''.metadata.calibre'') (str ''u-1'') None True) True,
        SendByteString [91, 93], LockRelease]
   \<and> arg_length (reset_args (str ''.metadata.calibre'') (str ''u-1'') None True) = 2
   \<and> arg_length (reset_args (str ''.metadata.calibre'') (str ''u-1'') None True) \<noteq> 0
   \<and> length [91, 93 :: nat] \<noteq> 0"
  by (simp add: purge_remote_metadata_file_def wait_for_ack_def read_ack_def Let_def
      dev_accepting_def reset_args_def payload_def str_def)

text \<open>
  Claim C3, amended. Whenever the reset and the delete that follows it succeed, the
  events added are exactly: the lock taken, one \<open>SEND_BOOK\<close> request for book 0 of 1
  whose lpath is the catalog file name and whose declared length is 2, the two payload
  bytes \<open>[]\<close>, the lock released, and a delete of the one path the reset returned. That
  path is the lpath carried by the acknowledgement when the device was asked to
  acknowledge and supplied one, and the catalog file name otherwise.
\<close>

theorem reset_overwrites_then_deletes:
  assumes "purge_and_delete dev target u now tr = (Inr cleaned, tr')"
  shows "tr' = tr @ [LockAcquire,
                    CallClient send_book (reset_args target u now (wait_for_ack dev))
                      (wait_for_ack dev),
                    SendByteString payload, LockRelease, DeleteBooks [cleaned]]
     \<and> arg_lpath (reset_args target u now (wait_for_ack dev)) = target
     \<and> arg_length (reset_args target u now (wait_for_ack dev)) = 2
     \<and> thisBook (reset_args target u now (wait_for_ack dev)) = 0
     \<and> totalBooks (reset_args target u now (wait_for_ack dev)) = 1
     \<and> payload = [91, 93]
     \<and> (if wait_for_ack dev
         then \<exists>opcode r. call_client dev (tr @ [LockAcquire]) send_book
                          (reset_args target u now True) True = Inr (opcode, Some r)
                \<and> opcode \<noteq> Some (str ''ERROR'')
                \<and> cleaned = (case r (str ''lpath'') of None \<Rightarrow> target | Some l \<Rightarrow> l)
         else cleaned = target)"
proof -
  obtain res t where p: "purge_remote_metadata_file dev target u now tr = (res, t)"
    by (cases "purge_remote_metadata_file dev target u now tr")
  from assms p have res: "res = Inr cleaned" and t: "tr' = t @ [DeleteBooks [cleaned]]"
    by (auto simp: purge_and_delete_def split: sum.splits option.splits)
  have fields: "arg_lpath (reset_args target u now (wait_for_ack dev)) = target"
    "arg_length (reset_args target u now (wait_for_ack dev)) = 2"
    "thisBook (reset_args target u now (wait_for_ack dev)) = 0"
    "totalBooks (reset_args target u now (wait_for_ack dev)) = 1"
    "payload = [91, 93]"
    by (simp_all add: reset_args_def payload_def)
  from purge_success[OF p[unfolded res]] t fields show ?thesis by simp
qed

theorem reset_overwrites_then_deletes_witness:
  "purge_and_delete dev_renaming (str ''.metadata.calibre'') (str ''u-1'') None []
     = (Inr (str ''inbox/.metadata.calibre''),
        [LockAcquire,
         CallClient send_book (reset_args (str ''.metadata.calibre'') (str ''u-1'') None True) True,
         SendByteString [91, 93], LockRelease,
         DeleteBooks [str ''inbox/.metadata.calibre'']])
   \<and> arg_length (reset_args (str ''.metadata.calibre'') (str ''u-1'') None True) = 2
   \<and> payload = [91, 93]"
proof -
  have ct: "purge_and_delete dev_renaming (str ''.metadata.calibre'') (str ''u-1'') None []
     = (Inr (str ''inbox/.metadata.calibre''),
        [LockAcquire,
         CallClient send_book (reset_args (str ''.metadata.calibre'') (str ''u-1'') None True) True,
         SendByteString [91, 93], LockRelease,
         DeleteBooks [str ''inbox/.metadata.calibre'']])"
    by (simp add: purge_and_delete_def purge_remote_metadata_file_def read_ack_def Let_def
      dev_renaming_def dev_accepting_def wait_for_ack_def payload_def str_def)
  have w: "wait_for_ack dev_renaming = True"
    by (simp add: wait_for_ack_def dev_renaming_def dev_accepting_def)
  from reset_overwrites_then_deletes [OF ct]
  have "arg_length (reset_args (str ''.metadata.calibre'') (str ''u-1'') None
          (wait_for_ack dev_renaming)) = 2 \<and> payload = [91, 93]"
    by blast
  then show ?thesis
    unfolding w using ct by blast
qed

text \<open>
  The operator's command as a whole: the file located is one of the two candidate names,
  and a completed command ends with the delete of the path the reset returned.
\<close>

lemma locate_in_candidate:
  "locate_in dev cs tr = (Some c, tr') \<Longrightarrow> c \<in> set cs"
proof (induction cs arbitrary: tr)
  case Nil
  then show ?case by simp
next
  case (Cons a cs)
  then show ?case
    by (cases "remote_file_exists dev a tr") (auto split: bool.splits if_splits)
qed

lemma delete_done_deletes_returned_path:
  assumes "delete_remote_metadata_file (Some dev) confirm u now tr = (DeleteDone cleaned, tr')"
  shows "tr' \<noteq> [] \<and> last tr' = DeleteBooks [cleaned]"
proof -
  obtain tgt tr1 where loc: "locate_remote_metadata_file dev tr = (tgt, tr1)"
    by (cases "locate_remote_metadata_file dev tr")
  from assms loc obtain target where tgt: "tgt = Some target"
    by (cases tgt) (auto simp: delete_remote_metadata_file_def)
  from assms loc tgt have pd: "purge_and_delete dev target u now tr1 = (Inr cleaned, tr')"
    by (cases "purge_and_delete dev target u now tr1")
       (auto simp: delete_remote_metadata_file_def split: if_splits sum.splits)
  obtain res t where p: "purge_remote_metadata_file dev target u now tr1 = (res, t)"
    by (cases "purge_remote_metadata_file dev target u now tr1")
  from pd p have "tr' = t @ [DeleteBooks [cleaned]]"
    by (auto simp: purge_and_delete_def split: sum.splits option.splits)
  then show ?thesis by simp
qed

section \<open>Properties of the Task Builder\<close>

lemma py_format_default:
  assumes "kw (str ''author'') = Some a" and "kw (str ''title'') = Some t"
  shows "py_format kw (str ''{author} - {title}'') = Formatted (a @ str '' - '' @ t)"
  using assms
  by (simp add: py_format_def str_def lbrace_def rbrace_def field_special_def
      resolve_field_def is_digit_def)

lemma build_filename_default:
  "build_filename mi fmt (str ''{author} - {title}'') =
     Formatted (safe_filename (case authors mi of [] \<Rightarrow> unknown | a # as \<Rightarrow> a)
                @ str '' - ''
                @ safe_filename (case title mi of
                                   None \<Rightarrow> unknown
                                 | Some t \<Rightarrow> if t = [] then unknown else t)
                @ str ''.'' @ lower fmt)"
proof -
  let ?a = "safe_filename (case authors mi of [] \<Rightarrow> unknown | a # as \<Rightarrow> a)"
  let ?t = "safe_filename (case title mi of
                                   None \<Rightarrow> unknown
                                 | Some t \<Rightarrow> if t = [] then unknown else t)"
  let ?kw = "[str ''author'' \<mapsto> ?a, str ''title'' \<mapsto> ?t,
              str ''series'' \<mapsto> safe_filename (case series mi of None \<Rightarrow> [] | Some s \<Rightarrow> s),
              str ''series_index'' \<mapsto> (case series_index mi of
                   None \<Rightarrow> []
                 | Some q \<Rightarrow> if q = 0 then [] else str_int (py_int q))]"
  have a: "?kw (str ''author'') = Some ?a" by (simp add: str_def)
  have t: "?kw (str ''title'') = Some ?t" by (simp add: str_def)
  show ?thesis
    unfolding build_filename_def Let_def py_format_default[OF a t] by simp
qed

lemma safe_filename_long_a: "safe_filename (replicate 101 97) = replicate 100 97"
  by (simp add: safe_filename_def invalid_chars_def replace_char_def strip_def dot_space_def
      underscore_def unknown_def str_def)

lemma safe_filename_long_b: "safe_filename (replicate 101 98) = replicate 100 98"
  by (simp add: safe_filename_def invalid_chars_def replace_char_def strip_def dot_space_def
      underscore_def unknown_def str_def)

text \<open>
  Claim C10. Under the default template the file name is the capped author, the text
  \<open>" - "\<close>, the capped title, a dot and the lower-cased format code: the cap of 100
  characters is applied to each placeholder value on its own, before the substitution,
  and the extension is appended after it. For an author and a title of 101 characters
  each and the format EPUB the complete file name has 208 characters.
\<close>

theorem filename_exceeds_cap:
  "build_filename mi fmt (str ''{author} - {title}'') =
     Formatted (safe_filename (case authors mi of [] \<Rightarrow> unknown | a # as \<Rightarrow> a)
                @ str '' - ''
                @ safe_filename (case title mi of
                                   None \<Rightarrow> unknown
                                 | Some t \<Rightarrow> if t = [] then unknown else t)
                @ str ''.'' @ lower fmt)
   \<and> build_filename (new_metadata (replicate 101 98) [replicate 101 97]) (str ''EPUB'')
        (str ''{author} - {title}'')
       = Formatted (replicate 100 97 @ str '' - '' @ replicate 100 98 @ str ''.epub'')
   \<and> length (replicate 100 97 @ str '' - '' @ replicate 100 98 @ str ''.epub'') = 208"
proof -
  have "build_filename (new_metadata (replicate 101 98) [replicate 101 97]) (str ''EPUB'')
        (str ''{author} - {title}'')
       = Formatted (replicate 100 97 @ str '' - '' @ replicate 100 98 @ str ''.epub'')"
    unfolding build_filename_default
    by (simp add: new_metadata_def safe_filename_long_a safe_filename_long_b lower_def
        lower_char_def str_def)
  moreover have "length (replicate 100 97 @ str '' - '' @ replicate 100 98 @ str ''.epub'')
      = 208"
    by (simp add: str_def)
  ultimately show ?thesis using build_filename_default by blast
qed








lemma build_step_verify:
  "build_step lib pl tmpl v req u b = Add t \<Longrightarrow> verify_md5 t = v"
  by (auto simp: build_step_def Let_def split: if_splits option.splits fmt_out.splits)

lemma build_loop_verify:
  "\<forall>t\<in>set tasks. verify_md5 t = v \<Longrightarrow>
   \<forall>t\<in>set (built_tasks (build_loop lib pl tmpl v req uuid4 i bs tasks failed)).
      verify_md5 t = v"
proof (induction bs arbitrary: i tasks failed)
  case Nil
  then show ?case by simp
next
  case (Cons b bs)
  show ?case
  proof (cases "build_step lib pl tmpl v req (uuid4 i) b")
    case (Skip reason)
    with Cons.IH[OF Cons.prems, of "Suc i" "failed @ [reason]"] show ?thesis by simp
  next
    case (Add t)
    have "\<forall>x\<in>set (tasks @ [t]). verify_md5 x = v"
      using Cons.prems build_step_verify[OF Add] by simp
    from Cons.IH[OF this, of "Suc i" failed] Add show ?thesis by simp
  next
    case (Abort e)
    then show ?thesis by simp
  next
    case NotModelled
    then show ?thesis by simp
  qed
qed

lemma prefs_get_verify:
  "prefs_get p pref_verify_md5 True = (case pref_verify_md5 p of Some v \<Rightarrow> v | None \<Rightarrow> False)"
  by (simp add: prefs_get_def prefs_defaults_def split: option.split)

lemma lib_one_step:
  "build_step lib_one pl (str ''{author} - {title}'') v None u (Suc 0)
   = (case select_format [str ''EPUB'', str ''MOBI''] None pl of
        None \<Rightarrow> Skip (str ''T'' @ reason_no_fmt None)
      | Some f \<Rightarrow>
          Add \<lparr>book_id = Suc 0, path = str ''/lib/t.'' @ lower f,
               name = safe_filename (str ''A'') @ str '' - '' @ safe_filename (str ''T'')
                        @ str ''.'' @ lower f,
               task_title = Some (str ''T''),
               task_metadata =
                 prepare_metadata_for_device (new_metadata (str ''T'') [str ''A'']) f 7 None u,
               task_size = 7, verify_md5 = v, format = f\<rparr>)"
proof -
  have ne: "str ''/lib/t.'' \<noteq> []" by (simp add: str_def)
  have t: "str ''T'' \<noteq> []" by (simp add: str_def)
  show ?thesis
    by (simp add: build_step_def lib_one_def build_filename_default Let_def fstr_def
        new_metadata_def ne t split: option.split)
qed

text \<open>
  Claim C9, as the source has it. The claim says the integrity check is on when the
  store holds no value for it. \<open>config.py\<close> declares the default \<open>False\<close> for the key,
  and the declared default takes precedence over the fallback \<open>True\<close> of the call: with an
  empty store the setting reads \<open>False\<close> and the task built has its check disabled.
\<close>

theorem verify_md5_default_off:
  "prefs_get prefs_empty pref_verify_md5 True = False
   \<and> map verify_md5 (built_tasks (build_tasks lib_one prefs_empty uuid_seq [1] None)) = [False]"
proof -
  have sel: "select_format [str ''EPUB'', str ''MOBI''] None
      [str ''EPUB'', str ''AZW3'', str ''MOBI'', str ''PDF'', str ''CBZ'', str ''CBR'']
      = Some (str ''EPUB'')"
    by (simp add: select_format_def upper_def upper_char_def str_def)
  have v: "prefs_get prefs_empty pref_verify_md5 True = False"
    by (simp add: prefs_get_def prefs_empty_def prefs_defaults_def)
  have pl: "prefs_get prefs_empty pref_preferred_formats
        [str ''EPUB'', str ''AZW3'', str ''MOBI'', str ''PDF'']
      = [str ''EPUB'', str ''AZW3'', str ''MOBI'', str ''PDF'', str ''CBZ'', str ''CBR'']"
    by (simp add: prefs_get_def prefs_empty_def prefs_defaults_def)
  have tm: "prefs_get prefs_empty pref_filename_template (str ''{author} - {title}'')
      = str ''{author} - {title}''"
    by (simp add: prefs_get_def prefs_empty_def prefs_defaults_def)
  show ?thesis
    unfolding build_tasks_def Let_def v pl tm
    by (simp add: lib_one_step sel)
qed

text \<open>
  Claim C9, amended. Every task built carries as its integrity-check flag the stored
  value of the setting, and \<open>False\<close>, the default declared in \<open>config.py\<close>, when the
  store holds no value: the check is off by default.
\<close>

theorem verify_md5_follows_declared_default:
  "\<forall>t\<in>set (built_tasks (build_tasks lib p uuid4 ids req)).
     verify_md5 t = (case pref_verify_md5 p of Some v \<Rightarrow> v | None \<Rightarrow> False)"
  unfolding build_tasks_def Let_def prefs_get_verify
  by (rule build_loop_verify) simp

theorem verify_md5_follows_declared_default_witness:
  "built_tasks (build_tasks lib_one prefs_empty uuid_seq [1, 1] None) \<noteq> []
   \<and> list_all (\<lambda>t. \<not> verify_md5 t)
        (built_tasks (build_tasks lib_one prefs_empty uuid_seq [1, 1] None))"
proof -
  have sel: "select_format [str ''EPUB'', str ''MOBI''] None
      [str ''EPUB'', str ''AZW3'', str ''MOBI'', str ''PDF'', str ''CBZ'', str ''CBR'']
      = Some (str ''EPUB'')"
    by (simp add: select_format_def upper_def upper_char_def str_def)
  have pl: "prefs_get prefs_empty pref_preferred_formats
        [str ''EPUB'', str ''AZW3'', str ''MOBI'', str ''PDF'']
      = [str ''EPUB'', str ''AZW3'', str ''MOBI'', str ''PDF'', str ''CBZ'', str ''CBR'']"
    by (simp add: prefs_get_def prefs_empty_def prefs_defaults_def)
  have tm: "prefs_get prefs_empty pref_filename_template (str ''{author} - {title}'')
      = str ''{author} - {title}''"
    by (simp add: prefs_get_def prefs_empty_def prefs_defaults_def)
  have ne: "built_tasks (build_tasks lib_one prefs_empty uuid_seq [1, 1] None) \<noteq> []"
    unfolding build_tasks_def Let_def pl tm
    by (simp add: lib_one_step sel)
  have none: "pref_verify_md5 prefs_empty = None" by (simp add: prefs_empty_def)
  show ?thesis
    using ne verify_md5_follows_declared_default [of lib_one prefs_empty uuid_seq "[1, 1]" None]
    by (simp add: none list_all_iff)
qed









end
